theory Spec2Isabelle
  imports Complex_Main "HOL-Library.AList"
begin

section \<open>Domain model (models/trade.py)\<close>

text \<open>
  The three enumerations of the source. Each is a \<open>str\<close>-mixin \<open>Enum\<close>; the
  \<open>_value\<close> functions give the member's \<open>.value\<close>.
\<close>

datatype Platform = SOLANA | POLYMARKET | KALSHI

datatype TradeType = BUY | SELL | SWAP

datatype TradeStatus = PENDING | EXECUTING | COMPLETED | FAILED | CANCELLED

fun Platform_value :: "Platform \<Rightarrow> string" where
  "Platform_value SOLANA = ''solana''"
| "Platform_value POLYMARKET = ''polymarket''"
| "Platform_value KALSHI = ''kalshi''"

fun TradeType_value :: "TradeType \<Rightarrow> string" where
  "TradeType_value BUY = ''buy''"
| "TradeType_value SELL = ''sell''"
| "TradeType_value SWAP = ''swap''"

text \<open>
  Values that cross the boundary to a venue or come out of \<open>json.loads\<close> are JSON
  values. A Python \<open>dict\<close> is an association list read with \<open>map_of\<close>; Python's
  \<open>None\<close> is \<open>JNull\<close>. A Python \<open>float\<close> is modelled as a real number: the
  comparisons with 0 and 1 that the code makes are exact on finite floats; NaN and the
  infinities are outside the model.
\<close>

datatype json =
    JNull
  | JBool bool
  | JNum real
  | JStr string
  | JArr "json list"
  | JObj "(string \<times> json) list"

text \<open>Python's truth value of a decoded JSON value (\<open>if x:\<close>).\<close>

fun truthy :: "json \<Rightarrow> bool" where
  "truthy JNull = False"
| "truthy (JBool b) = b"
| "truthy (JNum x) = (x \<noteq> 0)"
| "truthy (JStr s) = (s \<noteq> [])"
| "truthy (JArr xs) = (xs \<noteq> [])"
| "truthy (JObj kv) = (kv \<noteq> [])"

text \<open>
  Exceptions are values. The constructor is the exception's class, the string is what
  \<open>str(e)\<close> gives. The texts of exceptions raised by the interpreter or by a library
  are not fixed by the source; the ones written below are stand-ins.
\<close>

datatype exn =
    JSONDecodeError string
  | ValueError string
  | KeyError string
  | AttributeError string
  | TypeError string
  | ValidationError string
  | TransportError string

fun exn_str :: "exn \<Rightarrow> string" where
  "exn_str (JSONDecodeError m) = m"
| "exn_str (ValueError m) = m"
| "exn_str (KeyError m) = m"
| "exn_str (AttributeError m) = m"
| "exn_str (TypeError m) = m"
| "exn_str (ValidationError m) = m"
| "exn_str (TransportError m) = m"

record TradeRequest =
  platform :: Platform
  trade_type :: TradeType
  symbol :: string
  amount :: real
  price :: "real option"
  slippage :: real
  metadata :: "(string \<times> json) list"

record TradeResult =
  trade_id :: string
  res_platform :: Platform
  status :: TradeStatus
  transaction_hash :: "string option"
  executed_amount :: "real option"
  executed_price :: "real option"
  fee :: "real option"
  timestamp :: nat
  error :: "string option"
  res_metadata :: "(string \<times> json) list"

record PlatformCredentials =
  cred_platform :: Platform
  rpc_url :: "string option"
  api_key :: "string option"
  secret :: "string option"
  private_key :: "string option"
  passphrase :: "string option"
  wallet_address :: "string option"
  cred_metadata :: "(string \<times> json) list"

text \<open>
  Every failure branch of the source builds the same shape of \<open>TradeResult\<close>:
  \<open>TradeResult(trade_id="", platform=p, status=FAILED, timestamp=utcnow(), error=e)\<close>,
  all other fields at their defaults. \<open>now\<close> is the clock reading.
\<close>

definition failed_result :: "Platform \<Rightarrow> nat \<Rightarrow> string option \<Rightarrow> TradeResult" where
  "failed_result p now e =
     \<lparr> trade_id = '''', res_platform = p, status = FAILED, transaction_hash = None,
       executed_amount = None, executed_price = None, fee = None, timestamp = now,
       error = e, res_metadata = [] \<rparr>"

section \<open>Trade router (routers/trade\_router.py)\<close>

text \<open>
  \<open>self.platforms\<close> is a \<open>dict[Platform, BasePlatform]\<close>: an association list in
  insertion order whose keys are distinct. The router is written against the abstract
  \<open>BasePlatform\<close>, so the model is polymorphic in the adapter \<open>'a\<close> and in the
  outside world \<open>'w\<close>, and takes the adapter's methods as arguments (dynamic dispatch).
  A method returns its outcome (\<open>Inl\<close> an exception), the adapter as it has mutated
  itself, and the world.
\<close>

record 'a TradeRouter =
  platforms :: "(Platform \<times> 'a) list"

definition TradeRouter_init :: "'a TradeRouter" where
  "TradeRouter_init = \<lparr> platforms = [] \<rparr>"

definition register_platform ::
  "(PlatformCredentials \<Rightarrow> exn + 'a) \<Rightarrow> PlatformCredentials \<Rightarrow> 'a TradeRouter
     \<Rightarrow> exn + 'a TradeRouter" where
  "register_platform get_platform_adapter credentials r =
     (case get_platform_adapter credentials of
        Inl e \<Rightarrow> Inl e
      | Inr adapter \<Rightarrow>
          Inr (r\<lparr> platforms := AList.update (cred_platform credentials) adapter (platforms r) \<rparr>))"

definition unregister_platform :: "Platform \<Rightarrow> 'a TradeRouter \<Rightarrow> 'a TradeRouter" where
  "unregister_platform p r =
     (if p \<in> fst ` set (platforms r)
      then r\<lparr> platforms := AList.delete p (platforms r) \<rparr>
      else r)"

text \<open>
  \<open>execute_trade\<close>: \<open>self.platforms.get(trade.platform)\<close>; an adapter object is
  truthy, so \<open>not platform\<close> holds exactly when the key is absent.
\<close>

definition router_execute_trade ::
  "('a \<Rightarrow> TradeRequest \<Rightarrow> 'w \<Rightarrow> (exn + TradeResult) \<times> 'a \<times> 'w) \<Rightarrow> nat \<Rightarrow> TradeRequest
     \<Rightarrow> 'a TradeRouter \<Rightarrow> 'w \<Rightarrow> (exn + TradeResult) \<times> 'a TradeRouter \<times> 'w" where
  "router_execute_trade adapter_execute now trade r w =
     (case map_of (platforms r) (platform trade) of
        None \<Rightarrow>
          (Inr (failed_result (platform trade) now
                  (Some (''Platform '' @ Platform_value (platform trade) @ '' not registered''))),
           r, w)
      | Some adapter \<Rightarrow>
          (case adapter_execute adapter trade w of
             (res, adapter', w') \<Rightarrow>
               (res, r\<lparr> platforms := AList.update (platform trade) adapter' (platforms r) \<rparr>, w')))"

text \<open>
  \<open>get_all_balances\<close>: the loop over \<open>self.platforms.items()\<close>. \<open>balances\<close> is the
  dict being filled; an exception of \<open>adapter.get_balance()\<close> is caught and the entry
  becomes the empty dict.
\<close>

fun get_all_balances_loop ::
  "('a \<Rightarrow> 'w \<Rightarrow> (exn + json) \<times> 'a \<times> 'w) \<Rightarrow> (Platform \<times> 'a) list
     \<Rightarrow> (Platform \<times> json) list \<Rightarrow> 'w
     \<Rightarrow> (Platform \<times> json) list \<times> (Platform \<times> 'a) list \<times> 'w" where
  "get_all_balances_loop gb [] balances w = (balances, [], w)"
| "get_all_balances_loop gb ((p, adapter) # rest) balances w =
     (case gb adapter w of
        (res, adapter', w') \<Rightarrow>
          (case get_all_balances_loop gb rest
                  (AList.update p (case res of Inl e \<Rightarrow> JObj [] | Inr b \<Rightarrow> b) balances) w' of
             (balances', rest', w'') \<Rightarrow> (balances', (p, adapter') # rest', w'')))"

definition get_all_balances ::
  "('a \<Rightarrow> 'w \<Rightarrow> (exn + json) \<times> 'a \<times> 'w) \<Rightarrow> 'a TradeRouter \<Rightarrow> 'w
     \<Rightarrow> (Platform \<times> json) list \<times> 'a TradeRouter \<times> 'w" where
  "get_all_balances gb r w =
     (case get_all_balances_loop gb (platforms r) [] w of
        (balances, ps, w') \<Rightarrow> (balances, r\<lparr> platforms := ps \<rparr>, w'))"

section \<open>Library behaviour and the network\<close>

text \<open>
  What the code delegates to libraries and to the interpreter is a parameter of the model:
  \<^item> \<open>loads\<close>: \<open>json.loads\<close>;
  \<^item> \<open>coerce_float\<close>, \<open>coerce_str\<close>: what pydantic does with a value that is not
    already a number (for a \<open>float\<close> field) or a string (for a \<open>str\<close> field);
  \<^item> \<open>format_trade_type\<close>: how an f-string renders a \<open>TradeType\<close> member (this changed
    between Python versions);
  \<^item> \<open>keypair_from_base58\<close>: \<open>Keypair.from_bytes(base58.b58decode(k))\<close>;
  \<^item> \<open>float_mul\<close>: the product \<open>x * y\<close> of two floats, which is the exact product
    rounded to the nearest float. A float is modelled by the real number it denotes, so
    the rounding has to come from outside; it matters where the product is truncated
    afterwards (\<open>int(0.29 * 100)\<close> is \<open>28\<close>).
\<close>

record pylib =
  loads :: "string \<Rightarrow> exn + json"
  coerce_float :: "json \<Rightarrow> exn + real"
  coerce_str :: "json \<Rightarrow> exn + string"
  format_trade_type :: "TradeType \<Rightarrow> string"
  keypair_from_base58 :: "string \<Rightarrow> exn + string"
  float_mul :: "real \<Rightarrow> real \<Rightarrow> real"

definition bind_exn :: "exn + 'a \<Rightarrow> ('a \<Rightarrow> exn + 'b) \<Rightarrow> exn + 'b" where
  "bind_exn m f = (case m of Inl e \<Rightarrow> Inl e | Inr x \<Rightarrow> f x)"

text \<open>Validation of one pydantic field: \<open>str\<close>, \<open>float\<close>, \<open>Optional[str]\<close>, \<open>Optional[float]\<close>.\<close>

definition str_field :: "pylib \<Rightarrow> json \<Rightarrow> exn + string" where
  "str_field L v = (case v of JStr s \<Rightarrow> Inr s | _ \<Rightarrow> coerce_str L v)"

definition float_field :: "pylib \<Rightarrow> json \<Rightarrow> exn + real" where
  "float_field L v = (case v of JNum x \<Rightarrow> Inr x | _ \<Rightarrow> coerce_float L v)"

definition opt_str_field :: "pylib \<Rightarrow> json \<Rightarrow> exn + string option" where
  "opt_str_field L v =
     (case v of JNull \<Rightarrow> Inr None | _ \<Rightarrow> bind_exn (str_field L v) (\<lambda>s. Inr (Some s)))"

definition opt_float_field :: "pylib \<Rightarrow> json \<Rightarrow> exn + real option" where
  "opt_float_field L v =
     (case v of JNull \<Rightarrow> Inr None | _ \<Rightarrow> bind_exn (float_field L v) (\<lambda>x. Inr (Some x)))"

text \<open>\<open>d.get(k, default)\<close> and \<open>d[k]\<close>; on a value that is not a dict both raise.\<close>

definition dict_get :: "json \<Rightarrow> string \<Rightarrow> json \<Rightarrow> exn + json" where
  "dict_get d k dflt =
     (case d of
        JObj kv \<Rightarrow> Inr (case map_of kv k of None \<Rightarrow> dflt | Some v \<Rightarrow> v)
      | _ \<Rightarrow> Inl (AttributeError ''object has no attribute get''))"

definition dict_item :: "json \<Rightarrow> string \<Rightarrow> exn + json" where
  "dict_item d k =
     (case d of
        JObj kv \<Rightarrow> (case map_of kv k of None \<Rightarrow> Inl (KeyError k) | Some v \<Rightarrow> Inr v)
      | _ \<Rightarrow> Inl (TypeError ''object is not subscriptable''))"

text \<open>\<open>x / d\<close> for a decoded value \<open>x\<close> and a non-zero constant \<open>d\<close>; a bool is an int.\<close>

definition truediv :: "json \<Rightarrow> real \<Rightarrow> exn + real" where
  "truediv v d =
     (case v of
        JNum x \<Rightarrow> Inr (x / d)
      | JBool b \<Rightarrow> Inr ((if b then 1 else 0) / d)
      | _ \<Rightarrow> Inl (TypeError ''unsupported operand type(s) for /''))"

text \<open>\<open>int(x)\<close> of a finite float truncates towards zero; \<open>s.upper()\<close> on ASCII.\<close>

definition py_int :: "real \<Rightarrow> real" where
  "py_int x = of_int (if 0 \<le> x then \<lfloor>x\<rfloor> else \<lceil>x\<rceil>)"

definition upper :: "string \<Rightarrow> string" where
  "upper s =
     map (\<lambda>c. if 97 \<le> (of_char c :: nat) \<and> (of_char c :: nat) \<le> 122
               then char_of ((of_char c :: nat) - 32) else c) s"

text \<open>
  The network. Every request an adapter awaits is appended to the log \<open>net\<close>; the
  transport decides the outcome of the \<open>n\<close>-th request: an exception, or the decoded
  body (\<open>await response.json()\<close>). Request headers (API key, HMAC signature, bearer
  token) do not influence the adapters' control flow and are left out.
\<close>

record request =
  http_method :: string
  url :: string
  body :: json

type_synonym net = "request list"

type_synonym transport = "nat \<Rightarrow> request \<Rightarrow> exn + json"

definition send :: "transport \<Rightarrow> request \<Rightarrow> net \<Rightarrow> (exn + json) \<times> net" where
  "send tr rq w = (tr (length w) rq, w @ [rq])"

datatype http_session = NoSession | OpenSession | ClosedSession

section \<open>Platform adapters (platforms/)\<close>

subsection \<open>BasePlatform.validate\_trade\<close>

text \<open>
  \<open>get_balance\<close> is the subclass's method (called without a token). Its result is not
  used; an exception from it, or from the comparisons, gives the \<open>Validation error\<close>
  branch.
\<close>

definition validate_trade ::
  "('a \<Rightarrow> net \<Rightarrow> (exn + json) \<times> 'a \<times> net) \<Rightarrow> TradeRequest \<Rightarrow> 'a \<Rightarrow> net
     \<Rightarrow> (bool \<times> string option) \<times> 'a \<times> net" where
  "validate_trade get_balance trade self w =
     (case get_balance self w of
        (r, self', w') \<Rightarrow>
          ((case r of
              Inl e \<Rightarrow> (False, Some (''Validation error: '' @ exn_str e))
            | Inr balances \<Rightarrow>
                if amount trade \<le> 0 then (False, Some ''Amount must be positive'')
                else if slippage trade < 0 \<or> slippage trade > 1
                  then (False, Some ''Slippage must be between 0 and 1'')
                else (True, None)),
           self', w'))"

text \<open>The shape shared by the three \<open>execute_trade\<close>: \<open>except Exception as e\<close>.\<close>

definition catch_failed ::
  "Platform \<Rightarrow> nat \<Rightarrow> (exn + TradeResult) \<times> 'a \<times> net \<Rightarrow> TradeResult \<times> 'a \<times> net" where
  "catch_failed p now out =
     (case out of
        (Inl e, a, w) \<Rightarrow> (failed_result p now (Some (exn_str e)), a, w)
      | (Inr res, a, w) \<Rightarrow> (res, a, w))"

subsection \<open>SolanaAdapter\<close>

record SolanaAdapter =
  s_rpc_url :: string
  s_client :: bool
  s_wallet :: "string option"

definition SolanaAdapter_initialize :: "pylib \<Rightarrow> PlatformCredentials \<Rightarrow> exn + SolanaAdapter" where
  "SolanaAdapter_initialize L credentials =
     (let rpc = (case rpc_url credentials of
                   None \<Rightarrow> ''https://api.mainnet-beta.solana.com''
                 | Some u \<Rightarrow> if u = [] then ''https://api.mainnet-beta.solana.com'' else u)
      in case private_key credentials of
           None \<Rightarrow> Inr \<lparr> s_rpc_url = rpc, s_client = False, s_wallet = None \<rparr>
         | Some k \<Rightarrow>
             if k = [] then Inr \<lparr> s_rpc_url = rpc, s_client = False, s_wallet = None \<rparr>
             else (case keypair_from_base58 L k of
                     Inl e \<Rightarrow> Inl (ValueError (''Invalid Solana private key: '' @ exn_str e))
                   | Inr kp \<Rightarrow>
                       Inr \<lparr> s_rpc_url = rpc, s_client = False, s_wallet = Some kp \<rparr>))"

text \<open>
  \<open>get_balance\<close>: no wallet, no call. Otherwise the client is created and one RPC is made;
  the transport's value stands for \<open>response.value\<close>.
\<close>

definition solana_get_balance ::
  "transport \<Rightarrow> SolanaAdapter \<Rightarrow> net \<Rightarrow> (exn + json) \<times> SolanaAdapter \<times> net" where
  "solana_get_balance tr self w =
     (case s_wallet self of
        None \<Rightarrow> (Inr (JObj []), self, w)
      | Some kp \<Rightarrow>
          (case send tr \<lparr> http_method = ''getBalance'', url = s_rpc_url self, body = JStr kp \<rparr> w of
             (r, w') \<Rightarrow>
               (Inr (case r of
                       Inl e \<Rightarrow> JObj []
                     | Inr v \<Rightarrow>
                         (case truediv v 1000000000 of
                            Inl e \<Rightarrow> JObj []
                          | Inr sol_balance \<Rightarrow> JObj [(''SOL'', JNum sol_balance)])),
                self\<lparr> s_client := True \<rparr>, w')))"

definition get_jupiter_quote :: "string \<Rightarrow> real \<Rightarrow> real \<Rightarrow> json" where
  "get_jupiter_quote sy amt slip =
     JObj [(''price'', JNum 1), (''fee'', JNum 0.0001), (''route'', JStr ''jupiter'')]"

definition execute_jupiter_swap :: "json \<Rightarrow> string" where
  "execute_jupiter_swap quote = ''mock_transaction_signature''"

definition solana_execute_trade_body ::
  "pylib \<Rightarrow> transport \<Rightarrow> nat \<Rightarrow> TradeRequest \<Rightarrow> SolanaAdapter \<Rightarrow> net
     \<Rightarrow> (exn + TradeResult) \<times> SolanaAdapter \<times> net" where
  "solana_execute_trade_body L tr now trade self w =
     (case s_wallet self of
        None \<Rightarrow> (Inr (failed_result SOLANA now (Some ''Wallet not initialized'')), self, w)
      | Some kp \<Rightarrow>
          (case validate_trade (solana_get_balance tr) trade self w of
             ((is_valid, err), self1, w1) \<Rightarrow>
               if \<not> is_valid then (Inr (failed_result SOLANA now err), self1, w1)
               else
                 (if trade_type trade = SWAP then
                    (let quote = get_jupiter_quote (symbol trade) (amount trade) (slippage trade)
                     in if \<not> truthy quote
                        then Inr (failed_result SOLANA now (Some ''Failed to get quote''))
                        else
                          (let tx_signature = execute_jupiter_swap quote
                           in bind_exn (dict_get quote ''price'' JNull) (\<lambda>qp.
                              bind_exn (dict_get quote ''fee'' (JNum 0)) (\<lambda>qf.
                              bind_exn (opt_float_field L qp) (\<lambda>ep.
                              bind_exn (opt_float_field L qf) (\<lambda>fe.
                                Inr \<lparr> trade_id = tx_signature, res_platform = SOLANA,
                                      status = COMPLETED, transaction_hash = Some tx_signature,
                                      executed_amount = Some (amount trade),
                                      executed_price = ep, fee = fe, timestamp = now,
                                      error = None, res_metadata = [] \<rparr>))))))
                  else
                    Inr (failed_result SOLANA now
                           (Some (''Trade type '' @ format_trade_type L (trade_type trade)
                                    @ '' not supported''))),
                  self1\<lparr> s_client := True \<rparr>, w1)))"

definition solana_execute_trade ::
  "pylib \<Rightarrow> transport \<Rightarrow> nat \<Rightarrow> TradeRequest \<Rightarrow> SolanaAdapter \<Rightarrow> net
     \<Rightarrow> TradeResult \<times> SolanaAdapter \<times> net" where
  "solana_execute_trade L tr now trade self w =
     catch_failed SOLANA now (solana_execute_trade_body L tr now trade self w)"

definition solana_cancel_order :: "SolanaAdapter \<Rightarrow> string \<Rightarrow> bool" where
  "solana_cancel_order self order_id = False"

subsection \<open>PolymarketAdapter\<close>

record PolymarketAdapter =
  p_api_key :: "string option"
  p_secret :: "string option"
  p_passphrase :: "string option"
  p_session :: http_session

definition PolymarketAdapter_initialize :: "PlatformCredentials \<Rightarrow> PolymarketAdapter" where
  "PolymarketAdapter_initialize credentials =
     \<lparr> p_api_key = api_key credentials, p_secret = secret credentials,
       p_passphrase = passphrase credentials, p_session = NoSession \<rparr>"

text \<open>
  \<open>_make_request\<close>: \<open>_get_session\<close> leaves an open session in every case, then one
  request is awaited.
\<close>

definition polymarket_make_request ::
  "transport \<Rightarrow> string \<Rightarrow> string \<Rightarrow> json \<Rightarrow> PolymarketAdapter \<Rightarrow> net
     \<Rightarrow> (exn + json) \<times> PolymarketAdapter \<times> net" where
  "polymarket_make_request tr meth endpoint data self w =
     (case send tr \<lparr> http_method = meth,
                      url = ''https://api.polymarket.com'' @ endpoint, body = data \<rparr> w of
        (r, w') \<Rightarrow> (r, self\<lparr> p_session := OpenSession \<rparr>, w'))"

definition polymarket_get_balance ::
  "transport \<Rightarrow> PolymarketAdapter \<Rightarrow> net \<Rightarrow> (exn + json) \<times> PolymarketAdapter \<times> net" where
  "polymarket_get_balance tr self w =
     (case polymarket_make_request tr ''GET'' ''/balances'' JNull self w of
        (r, self', w') \<Rightarrow>
          (Inr (case bind_exn r (\<lambda>response.
                       bind_exn (dict_get response ''success'' JNull) (\<lambda>ok.
                         if truthy ok then dict_get response ''balances'' (JObj [])
                         else Inr (JObj []))) of
                  Inl e \<Rightarrow> JObj []
                | Inr balances \<Rightarrow> balances),
           self', w'))"

definition polymarket_order_data :: "TradeRequest \<Rightarrow> json" where
  "polymarket_order_data trade =
     JObj [(''market'', JStr (symbol trade)),
           (''side'', JStr (if TradeType_value (trade_type trade) = ''buy''
                            then ''BUY'' else ''SELL'')),
           (''size'', JNum (amount trade)),
           (''price'', (case price trade of None \<Rightarrow> JNull | Some p \<Rightarrow> JNum p)),
           (''type'', JStr (if (case price trade of None \<Rightarrow> False | Some p \<Rightarrow> p \<noteq> 0)
                            then ''LIMIT'' else ''MARKET''))]"

definition polymarket_result ::
  "pylib \<Rightarrow> nat \<Rightarrow> TradeRequest \<Rightarrow> json \<Rightarrow> exn + TradeResult" where
  "polymarket_result L now trade response =
     bind_exn (dict_get response ''success'' JNull) (\<lambda>ok.
       if truthy ok then
         bind_exn (dict_get response ''orderId'' (JStr [])) (\<lambda>oid.
         bind_exn (dict_get response ''transactionHash'' JNull) (\<lambda>th.
         bind_exn (dict_get response ''executedPrice'' JNull) (\<lambda>ep.
         bind_exn (dict_get response ''fee'' (JNum 0)) (\<lambda>fe.
         bind_exn (str_field L oid) (\<lambda>oid'.
         bind_exn (opt_str_field L th) (\<lambda>th'.
         bind_exn (opt_float_field L ep) (\<lambda>ep'.
         bind_exn (opt_float_field L fe) (\<lambda>fe'.
           Inr \<lparr> trade_id = oid', res_platform = POLYMARKET, status = COMPLETED,
                 transaction_hash = th', executed_amount = Some (amount trade),
                 executed_price = ep', fee = fe', timestamp = now,
                 error = None, res_metadata = [] \<rparr>))))))))
       else
         bind_exn (dict_get response ''error'' (JStr ''Unknown error'')) (\<lambda>er.
         bind_exn (opt_str_field L er) (\<lambda>er'.
           Inr (failed_result POLYMARKET now er'))))"

definition polymarket_execute_trade_body ::
  "pylib \<Rightarrow> transport \<Rightarrow> nat \<Rightarrow> TradeRequest \<Rightarrow> PolymarketAdapter \<Rightarrow> net
     \<Rightarrow> (exn + TradeResult) \<times> PolymarketAdapter \<times> net" where
  "polymarket_execute_trade_body L tr now trade self w =
     (case validate_trade (polymarket_get_balance tr) trade self w of
        ((is_valid, err), self1, w1) \<Rightarrow>
          if \<not> is_valid then (Inr (failed_result POLYMARKET now err), self1, w1)
          else
            (case polymarket_make_request tr ''POST'' ''/orders''
                    (polymarket_order_data trade) self1 w1 of
               (r, self2, w2) \<Rightarrow>
                 (bind_exn r (polymarket_result L now trade), self2, w2)))"

definition polymarket_execute_trade ::
  "pylib \<Rightarrow> transport \<Rightarrow> nat \<Rightarrow> TradeRequest \<Rightarrow> PolymarketAdapter \<Rightarrow> net
     \<Rightarrow> TradeResult \<times> PolymarketAdapter \<times> net" where
  "polymarket_execute_trade L tr now trade self w =
     catch_failed POLYMARKET now (polymarket_execute_trade_body L tr now trade self w)"

subsection \<open>KalshiAdapter\<close>

record KalshiAdapter =
  k_api_key :: "string option"
  k_private_key :: "string option"
  k_session :: http_session
  k_token :: json

definition KalshiAdapter_initialize :: "PlatformCredentials \<Rightarrow> KalshiAdapter" where
  "KalshiAdapter_initialize credentials =
     \<lparr> k_api_key = api_key credentials, k_private_key = private_key credentials,
       k_session = NoSession, k_token = JNull \<rparr>"

definition opt_str_json :: "string option \<Rightarrow> json" where
  "opt_str_json v = (case v of None \<Rightarrow> JNull | Some s \<Rightarrow> JStr s)"

definition kalshi_authenticate ::
  "transport \<Rightarrow> KalshiAdapter \<Rightarrow> net \<Rightarrow> bool \<times> KalshiAdapter \<times> net" where
  "kalshi_authenticate tr self w =
     (case send tr \<lparr> http_method = ''POST'',
                      url = ''https://api.elections.kalshi.com/trade-api/v2'' @ ''/login'',
                      body = JObj [(''email'', opt_str_json (k_api_key self)),
                                   (''password'', opt_str_json (k_private_key self))] \<rparr> w of
        (r, w') \<Rightarrow>
          (case bind_exn r (\<lambda>data. dict_get data ''token'' JNull) of
             Inl e \<Rightarrow> (False, self\<lparr> k_session := OpenSession \<rparr>, w')
           | Inr t \<Rightarrow>
               if truthy t
               then (True, self\<lparr> k_session := OpenSession, k_token := t \<rparr>, w')
               else (False, self\<lparr> k_session := OpenSession \<rparr>, w')))"

definition kalshi_make_request ::
  "transport \<Rightarrow> string \<Rightarrow> string \<Rightarrow> json \<Rightarrow> KalshiAdapter \<Rightarrow> net
     \<Rightarrow> (exn + json) \<times> KalshiAdapter \<times> net" where
  "kalshi_make_request tr meth endpoint data self w =
     (case (if \<not> truthy (k_token self)
            then (case kalshi_authenticate tr self w of (ok, self', w') \<Rightarrow> (self', w'))
            else (self, w)) of
        (self1, w1) \<Rightarrow>
          (case send tr \<lparr> http_method = meth,
                           url = ''https://api.elections.kalshi.com/trade-api/v2'' @ endpoint,
                           body = data \<rparr> w1 of
             (r, w2) \<Rightarrow> (r, self1\<lparr> k_session := OpenSession \<rparr>, w2)))"

definition kalshi_get_balance ::
  "transport \<Rightarrow> KalshiAdapter \<Rightarrow> net \<Rightarrow> (exn + json) \<times> KalshiAdapter \<times> net" where
  "kalshi_get_balance tr self w =
     (case kalshi_make_request tr ''GET'' ''/portfolio/balance'' JNull self w of
        (r, self', w') \<Rightarrow>
          (Inr (case bind_exn r (\<lambda>response.
                       bind_exn (dict_get response ''balance'' JNull) (\<lambda>b.
                         if truthy b
                         then bind_exn (truediv b 100) (\<lambda>balance.
                                Inr (JObj [(''USD'', JNum balance)]))
                         else Inr (JObj []))) of
                  Inl e \<Rightarrow> JObj []
                | Inr balances \<Rightarrow> balances),
           self', w'))"

definition kalshi_order_data :: "pylib \<Rightarrow> TradeRequest \<Rightarrow> json" where
  "kalshi_order_data L trade =
     (let order_data =
            [(''ticker'', JStr (symbol trade)),
             (''action'', JStr (upper (TradeType_value (trade_type trade)))),
             (''count'', JNum (py_int (amount trade))),
             (''type'', JStr ''market''),
             (''side'', JStr ''yes'')]
      in JObj (case price trade of
                 None \<Rightarrow> order_data
               | Some p \<Rightarrow>
                   if p \<noteq> 0
                   then AList.update ''yes_price'' (JNum (py_int (float_mul L p 100)))
                          (AList.update ''type'' (JStr ''limit'') order_data)
                   else order_data))"

definition kalshi_result :: "pylib \<Rightarrow> nat \<Rightarrow> json \<Rightarrow> exn + TradeResult" where
  "kalshi_result L now response =
     bind_exn (dict_get response ''order'' JNull) (\<lambda>ord.
       if truthy ord then
         bind_exn (dict_get ord ''order_id'' (JStr [])) (\<lambda>oid.
         bind_exn (dict_get ord ''quantity'' (JNum 0)) (\<lambda>q.
         bind_exn (dict_get ord ''yes_price'' (JNum 0)) (\<lambda>yp.
         bind_exn (truediv yp 100) (\<lambda>ep.
         bind_exn (dict_get ord ''fee'' (JNum 0)) (\<lambda>fj.
         bind_exn (truediv fj 100) (\<lambda>fe.
         bind_exn (str_field L oid) (\<lambda>oid'.
         bind_exn (opt_float_field L q) (\<lambda>q'.
           Inr \<lparr> trade_id = oid', res_platform = KALSHI, status = COMPLETED,
                 transaction_hash = None, executed_amount = q',
                 executed_price = Some ep, fee = Some fe, timestamp = now,
                 error = None, res_metadata = [] \<rparr>))))))))
       else
         bind_exn (dict_get response ''error'' (JStr ''Unknown error'')) (\<lambda>er.
         bind_exn (opt_str_field L er) (\<lambda>er'.
           Inr (failed_result KALSHI now er'))))"

definition kalshi_execute_trade_body ::
  "pylib \<Rightarrow> transport \<Rightarrow> nat \<Rightarrow> TradeRequest \<Rightarrow> KalshiAdapter \<Rightarrow> net
     \<Rightarrow> (exn + TradeResult) \<times> KalshiAdapter \<times> net" where
  "kalshi_execute_trade_body L tr now trade self w =
     (case validate_trade (kalshi_get_balance tr) trade self w of
        ((is_valid, err), self1, w1) \<Rightarrow>
          if \<not> is_valid then (Inr (failed_result KALSHI now err), self1, w1)
          else
            (case kalshi_make_request tr ''POST'' ''/portfolio/orders''
                    (kalshi_order_data L trade) self1 w1 of
               (r, self2, w2) \<Rightarrow>
                 (bind_exn r (kalshi_result L now), self2, w2)))"

definition kalshi_execute_trade ::
  "pylib \<Rightarrow> transport \<Rightarrow> nat \<Rightarrow> TradeRequest \<Rightarrow> KalshiAdapter \<Rightarrow> net
     \<Rightarrow> TradeResult \<times> KalshiAdapter \<times> net" where
  "kalshi_execute_trade L tr now trade self w =
     catch_failed KALSHI now (kalshi_execute_trade_body L tr now trade self w)"

subsection \<open>The three variants behind one interface (platforms/\_\_init\_\_.py)\<close>

datatype adapter =
    Solana SolanaAdapter
  | Polymarket PolymarketAdapter
  | Kalshi KalshiAdapter

definition get_platform_adapter :: "pylib \<Rightarrow> PlatformCredentials \<Rightarrow> exn + adapter" where
  "get_platform_adapter L credentials =
     (case cred_platform credentials of
        SOLANA \<Rightarrow> bind_exn (SolanaAdapter_initialize L credentials) (\<lambda>a. Inr (Solana a))
      | POLYMARKET \<Rightarrow> Inr (Polymarket (PolymarketAdapter_initialize credentials))
      | KALSHI \<Rightarrow> Inr (Kalshi (KalshiAdapter_initialize credentials)))"

fun execute_trade ::
  "pylib \<Rightarrow> transport \<Rightarrow> nat \<Rightarrow> TradeRequest \<Rightarrow> adapter \<Rightarrow> net
     \<Rightarrow> TradeResult \<times> adapter \<times> net" where
  "execute_trade L tr now trade (Solana a) w =
     (case solana_execute_trade L tr now trade a w of (res, a', w') \<Rightarrow> (res, Solana a', w'))"
| "execute_trade L tr now trade (Polymarket a) w =
     (case polymarket_execute_trade L tr now trade a w of
        (res, a', w') \<Rightarrow> (res, Polymarket a', w'))"
| "execute_trade L tr now trade (Kalshi a) w =
     (case kalshi_execute_trade L tr now trade a w of (res, a', w') \<Rightarrow> (res, Kalshi a', w'))"

fun get_balance :: "transport \<Rightarrow> adapter \<Rightarrow> net \<Rightarrow> (exn + json) \<times> adapter \<times> net" where
  "get_balance tr (Solana a) w =
     (case solana_get_balance tr a w of (r, a', w') \<Rightarrow> (r, Solana a', w'))"
| "get_balance tr (Polymarket a) w =
     (case polymarket_get_balance tr a w of (r, a', w') \<Rightarrow> (r, Polymarket a', w'))"
| "get_balance tr (Kalshi a) w =
     (case kalshi_get_balance tr a w of (r, a', w') \<Rightarrow> (r, Kalshi a', w'))"

text \<open>
  The messages \<open>validate_trade\<close> can return: this is what a validation error is.
\<close>

definition validation_message :: "string \<Rightarrow> bool" where
  "validation_message m \<longleftrightarrow>
     m = ''Amount must be positive'' \<or> m = ''Slippage must be between 0 and 1''
     \<or> take 18 m = ''Validation error: ''"

section \<open>Constructing a TradeRequest (models/trade.py)\<close>

text \<open>
  \<open>TradeRequest(platform=..., trade_type=..., symbol=..., amount=..., price=...,
  slippage=..., metadata=...)\<close> with enum members for the first two arguments. pydantic
  validates each field; \<open>slippage\<close> carries \<open>Field(default=0.01, ge=0, le=1)\<close>, the
  default being used when the argument is omitted (\<open>None\<close> here).
\<close>

definition TradeRequest_init ::
  "pylib \<Rightarrow> Platform \<Rightarrow> TradeType \<Rightarrow> json \<Rightarrow> json \<Rightarrow> json \<Rightarrow> json option
     \<Rightarrow> (string \<times> json) list \<Rightarrow> exn + TradeRequest" where
  "TradeRequest_init L p tt sy amt pr slip md =
     bind_exn (str_field L sy) (\<lambda>sy'.
     bind_exn (float_field L amt) (\<lambda>amt'.
     bind_exn (opt_float_field L pr) (\<lambda>pr'.
     bind_exn (case slip of
                 None \<Rightarrow> Inr 0.01
               | Some v \<Rightarrow>
                   bind_exn (float_field L v) (\<lambda>x.
                     if 0 \<le> x \<and> x \<le> 1 then Inr x
                     else Inl (ValidationError ''slippage: out of range''))) (\<lambda>slip'.
       Inr \<lparr> platform = p, trade_type = tt, symbol = sy', amount = amt',
             price = pr', slippage = slip', metadata = md \<rparr>))))"

text \<open>
  \<open>trade.slippage = v\<close> on an existing request. The class sets no \<open>model_config\<close>:
  the model is not frozen and assignments are not validated, so the value is stored as
  it is.
\<close>

definition TradeRequest_set_slippage :: "real \<Rightarrow> TradeRequest \<Rightarrow> TradeRequest" where
  "TradeRequest_set_slippage v trade = trade\<lparr> slippage := v \<rparr>"

section \<open>Agent decision parser (agents/anthropic\_agent.py)\<close>

text \<open>\<open>Platform(v)\<close> and \<open>TradeType(v)\<close>: lookup of a member by value.\<close>

definition Platform_of :: "json \<Rightarrow> exn + Platform" where
  "Platform_of v =
     (if v = JStr ''solana'' then Inr SOLANA
      else if v = JStr ''polymarket'' then Inr POLYMARKET
      else if v = JStr ''kalshi'' then Inr KALSHI
      else Inl (ValueError ''not a valid Platform''))"

definition TradeType_of :: "json \<Rightarrow> exn + TradeType" where
  "TradeType_of v =
     (if v = JStr ''buy'' then Inr BUY
      else if v = JStr ''sell'' then Inr SELL
      else if v = JStr ''swap'' then Inr SWAP
      else Inl (ValueError ''not a valid TradeType''))"

text \<open>\<open>s.find(c)\<close>, \<open>s.rfind(c)\<close> (\<open>-1\<close> when absent) and \<open>s[i:j]\<close> for \<open>0 \<le> i\<close>, \<open>0 \<le> j\<close>.\<close>

fun find_char :: "char \<Rightarrow> string \<Rightarrow> int" where
  "find_char c [] = -1"
| "find_char c (x # xs) =
     (if x = c then 0
      else (let i = find_char c xs in if i < 0 then -1 else i + 1))"

definition rfind_char :: "char \<Rightarrow> string \<Rightarrow> int" where
  "rfind_char c s =
     (let i = find_char c (rev s) in if i < 0 then -1 else int (length s) - 1 - i)"

definition py_slice :: "string \<Rightarrow> int \<Rightarrow> int \<Rightarrow> string" where
  "py_slice s i j = take (nat (j - i)) (drop (nat i) s)"

text \<open>
  The inner \<open>try\<close> of \<open>generate_trade_decision\<close>, from \<open>content.find\<close> to the
  \<open>return TradeRequest(...)\<close>. The arguments of the constructor are evaluated left to
  right, so the first failing one decides the exception.
\<close>

definition extract_decision :: "pylib \<Rightarrow> string \<Rightarrow> exn + TradeRequest option" where
  "extract_decision L content =
     (let start = find_char (CHR ''{'') content;
          stop = rfind_char (CHR ''}'') content + 1
      in if start \<ge> 0 \<and> stop > start then
           bind_exn (loads L (py_slice content start stop)) (\<lambda>decision.
           bind_exn (dict_get decision ''action'' JNull) (\<lambda>act.
             if act = JStr ''trade'' then
               bind_exn (dict_item decision ''platform'') (\<lambda>pj.
               bind_exn (Platform_of pj) (\<lambda>p.
               bind_exn (dict_item decision ''trade_type'') (\<lambda>tj.
               bind_exn (TradeType_of tj) (\<lambda>tt.
               bind_exn (dict_item decision ''symbol'') (\<lambda>sy.
               bind_exn (dict_item decision ''amount'') (\<lambda>am.
               bind_exn (dict_get decision ''price'' JNull) (\<lambda>pr.
               bind_exn (dict_get decision ''slippage'' (JNum 0.01)) (\<lambda>sl.
               bind_exn (dict_get decision ''reasoning'' (JStr [])) (\<lambda>re.
               bind_exn (TradeRequest_init L p tt sy am pr (Some sl) [(''reasoning'', re)])
                 (\<lambda>t. Inr (Some t)))))))))))
             else Inr None))
         else Inr None)"

text \<open>\<open>except json.JSONDecodeError: pass\<close>, followed by \<open>return None\<close>.\<close>

definition parse_decision :: "pylib \<Rightarrow> string \<Rightarrow> exn + TradeRequest option" where
  "parse_decision L content =
     (case extract_decision L content of
        Inl (JSONDecodeError m) \<Rightarrow> Inr None
      | Inl e \<Rightarrow> Inl e
      | Inr r \<Rightarrow> Inr r)"

text \<open>
  \<open>generate_trade_decision\<close>. \<open>reply\<close> is the outcome of the part of the outer
  \<open>try\<close> that precedes the parsing: building the prompt, awaiting
  \<open>client.messages.create\<close> and reading \<open>response.content[0].text\<close> (the empty string
  when there is no content), or the exception raised on the way. The outer
  \<open>except Exception\<close> prints and returns \<open>None\<close>.
\<close>

definition generate_trade_decision :: "pylib \<Rightarrow> exn + string \<Rightarrow> TradeRequest option" where
  "generate_trade_decision L reply =
     (case bind_exn reply (parse_decision L) of
        Inl e \<Rightarrow> None
      | Inr r \<Rightarrow> r)"

section \<open>A concrete library and venue, for running the model\<close>

text \<open>
  An instance of the library parameters: \<open>json.loads\<close> restricted to three documents
  (a hold decision, the trade decision that the specification gives as an example, and a
  trade decision naming a venue that is not a \<open>Platform\<close>; everything else is
  undecodable), pydantic
  coercing nothing, an f-string rendering a \<open>TradeType\<close> by its value, every
  non-empty key accepted as a keypair, and a product that is not rounded (the float
  product wherever the exact product is a float; no property below multiplies). \<open>venue_accepts\<close> is a venue that answers every
  request with a success document.
\<close>

definition hold_text :: string where
  "hold_text = ''{\"action\":\"hold\",\"reasoning\":\"flat market\"}''"

definition trade_text :: string where
  "trade_text =
     ''{\"action\":\"trade\",\"platform\":\"solana\",\"trade_type\":\"swap\",\"symbol\":\"SOL/USDC\",\"amount\":0.1}''"

definition unknown_venue_text :: string where
  "unknown_venue_text =
     ''{\"action\":\"trade\",\"platform\":\"binance\",\"trade_type\":\"buy\",\"symbol\":\"BTC\",\"amount\":1}''"

definition example_loads :: "string \<Rightarrow> exn + json" where
  "example_loads s =
     (if s = hold_text
      then Inr (JObj [(''action'', JStr ''hold''), (''reasoning'', JStr ''flat market'')])
      else if s = trade_text
      then Inr (JObj [(''action'', JStr ''trade''), (''platform'', JStr ''solana''),
                      (''trade_type'', JStr ''swap''), (''symbol'', JStr ''SOL/USDC''),
                      (''amount'', JNum 0.1)])
      else if s = unknown_venue_text
      then Inr (JObj [(''action'', JStr ''trade''), (''platform'', JStr ''binance''),
                      (''trade_type'', JStr ''buy''), (''symbol'', JStr ''BTC''),
                      (''amount'', JNum 1)])
      else Inl (JSONDecodeError ''Expecting value''))"

definition no_float :: "json \<Rightarrow> exn + real" where
  "no_float v = Inl (ValidationError ''Input should be a valid number'')"

definition no_str :: "json \<Rightarrow> exn + string" where
  "no_str v = Inl (ValidationError ''Input should be a valid string'')"

definition any_keypair :: "string \<Rightarrow> exn + string" where
  "any_keypair k = Inr k"

definition exact_mul :: "real \<Rightarrow> real \<Rightarrow> real" where
  "exact_mul x y = x * y"

definition example_lib :: pylib where
  "example_lib =
     \<lparr> loads = example_loads, coerce_float = no_float, coerce_str = no_str,
       format_trade_type = TradeType_value, keypair_from_base58 = any_keypair,
       float_mul = exact_mul \<rparr>"

definition venue_accepts :: transport where
  "venue_accepts n rq =
     Inr (JObj [(''success'', JBool True), (''orderId'', JStr ''o-1''),
                (''order'', JObj [(''order_id'', JStr ''o-1''), (''quantity'', JNum 1)])])"

section \<open>Properties of the router\<close>

text \<open>
  C1. Dispatching a trade whose platform has no adapter in the router returns a result
  (no exception) whose status is failed and whose error is the text
  \<open>Platform <value> not registered\<close>; router and world are left as they were.
\<close>

theorem router_unregistered_fails:
  assumes "map_of (platforms r) (platform trade) = None"
  shows "\<exists>res. router_execute_trade adapter_execute now trade r w = (Inr res, r, w)
           \<and> status res = FAILED
           \<and> error res =
               Some (''Platform '' @ Platform_value (platform trade) @ '' not registered'')"
  using assms by (simp add: router_execute_trade_def failed_result_def)

theorem router_unregistered_fails_witness:
  "map_of (platforms (TradeRouter_init :: unit TradeRouter))
      (platform \<lparr> platform = KALSHI, trade_type = BUY, symbol = ''M'', amount = 1,
                   price = None, slippage = 0.01, metadata = [] \<rparr>) = None
   \<and> (\<exists>res. router_execute_trade (\<lambda>a t w. (Inl (ValueError ''unused''), a, w)) 7
                \<lparr> platform = KALSHI, trade_type = BUY, symbol = ''M'', amount = 1,
                  price = None, slippage = 0.01, metadata = [] \<rparr>
                (TradeRouter_init :: unit TradeRouter) ()
              = (Inr res, TradeRouter_init, ())
            \<and> status res = FAILED
            \<and> error res = Some ''Platform kalshi not registered'')"
  using router_unregistered_fails
    [of "TradeRouter_init :: unit TradeRouter"
        "\<lparr> platform = KALSHI, trade_type = BUY, symbol = ''M'', amount = 1,
           price = None, slippage = 0.01, metadata = [] \<rparr>"
        "\<lambda>a t w. (Inl (ValueError ''unused''), a, w)" 7 "()"]
  by (simp add: TradeRouter_init_def)

text \<open>The loop of \<open>get_all_balances\<close>: keys, untouched entries, and splitting the dict.\<close>

lemma loop_keys:
  "get_all_balances_loop gb ps bal w = (bal', ps', w') \<Longrightarrow>
   distinct (map fst bal) \<Longrightarrow> distinct (map fst ps) \<Longrightarrow>
   set (map fst bal) \<inter> set (map fst ps) = {} \<Longrightarrow>
   map fst bal' = map fst bal @ map fst ps \<and> map fst ps' = map fst ps"
proof (induction ps arbitrary: bal w bal' ps' w')
  case Nil
  then show ?case by simp
next
  case (Cons x ps)
  obtain p a where x: "x = (p, a)" by (cases x)
  obtain res a1 w1 where g: "gb a w = (res, a1, w1)" by (cases "gb a w")
  let ?b = "AList.update p (case res of Inl e \<Rightarrow> JObj [] | Inr b \<Rightarrow> b) bal"
  obtain b2 r2 w2 where l: "get_all_balances_loop gb ps ?b w1 = (b2, r2, w2)"
    by (cases "get_all_balances_loop gb ps ?b w1")
  from Cons.prems(1) x g l have eq: "bal' = b2" "ps' = (p, a1) # r2" by simp_all
  have pn: "p \<notin> fst ` set bal" using Cons.prems(4) x by auto
  have k: "map fst ?b = map fst bal @ [p]" using pn by (simp add: update_keys)
  have "map fst b2 = map fst ?b @ map fst ps \<and> map fst r2 = map fst ps"
    using Cons.IH[OF l] Cons.prems x k by auto
  then show ?case using eq k x by simp
qed

lemma loop_preserves_entry:
  "get_all_balances_loop gb ps bal w = (bal', ps', w') \<Longrightarrow> p \<notin> fst ` set ps \<Longrightarrow>
   map_of bal' p = map_of bal p"
proof (induction ps arbitrary: bal w bal' ps' w')
  case Nil
  then show ?case by simp
next
  case (Cons x ps)
  obtain q a where x: "x = (q, a)" by (cases x)
  obtain res a1 w1 where g: "gb a w = (res, a1, w1)" by (cases "gb a w")
  let ?b = "AList.update q (case res of Inl e \<Rightarrow> JObj [] | Inr b \<Rightarrow> b) bal"
  obtain b2 r2 w2 where l: "get_all_balances_loop gb ps ?b w1 = (b2, r2, w2)"
    by (cases "get_all_balances_loop gb ps ?b w1")
  from Cons.prems(1) x g l have eq: "bal' = b2" by simp
  have "q \<noteq> p" using Cons.prems(2) x by auto
  then have "map_of ?b p = map_of bal p" by (simp add: update_conv')
  moreover have "map_of b2 p = map_of ?b p" using Cons.IH[OF l] Cons.prems(2) by simp
  ultimately show ?case using eq by simp
qed

lemma loop_append:
  "get_all_balances_loop gb (xs @ ys) bal w =
     (case get_all_balances_loop gb xs bal w of
        (b1, xs', w1) \<Rightarrow>
          (case get_all_balances_loop gb ys b1 w1 of
             (b2, ys', w2) \<Rightarrow> (b2, xs' @ ys', w2)))"
  by (induction xs arbitrary: bal w) (auto split: prod.splits)

text \<open>
  C7. With \<open>N\<close> registered platforms (the keys of the dict are distinct),
  \<open>get_all_balances\<close> returns a dict with the same keys in the same order, so exactly
  \<open>N\<close> entries, and leaves the registry's keys as they were. For each registered platform
  \<open>p\<close> with adapter \<open>a\<close>, reached in world \<open>w1\<close> after the platforms before it: when
  \<open>get_balance\<close> raises there, the entry of \<open>p\<close> is the empty dict, and otherwise it is
  what \<open>get_balance\<close> returned; the platforms after \<open>p\<close> are still collected.
\<close>

theorem get_all_balances_entries:
  assumes d: "distinct (map fst (platforms r))"
    and g: "get_all_balances gb r w = (balances, r', w')"
  shows "map fst balances = map fst (platforms r)
       \<and> length balances = length (platforms r)
       \<and> map fst (platforms r') = map fst (platforms r)
       \<and> (\<forall>pre p a post b1 pre1 w1.
            platforms r = pre @ (p, a) # post \<and>
            get_all_balances_loop gb pre [] w = (b1, pre1, w1) \<longrightarrow>
            map_of balances p =
              Some (case fst (gb a w1) of Inl e \<Rightarrow> JObj [] | Inr b \<Rightarrow> b))"
proof -
  obtain ps where l: "get_all_balances_loop gb (platforms r) [] w = (balances, ps, w')"
    and r': "r' = r\<lparr> platforms := ps \<rparr>"
    using g by (auto simp: get_all_balances_def split: prod.splits)
  have k: "map fst balances = map fst (platforms r) \<and> map fst ps = map fst (platforms r)"
    using loop_keys[OF l] d by simp
  then have len: "length balances = length (platforms r)"
    by (metis length_map)
  have ent: "map_of balances p =
        Some (case fst (gb a w1) of Inl e \<Rightarrow> JObj [] | Inr b \<Rightarrow> b)"
    if sp: "platforms r = pre @ (p, a) # post"
      and lp: "get_all_balances_loop gb pre [] w = (b1, pre1, w1)"
    for pre p a post b1 pre1 w1
  proof -
    obtain res a1 w2 where gb: "gb a w1 = (res, a1, w2)" by (cases "gb a w1")
    let ?v = "case res of Inl e \<Rightarrow> JObj [] | Inr b \<Rightarrow> b"
    let ?b = "AList.update p ?v b1"
    obtain b3 r3 w3 where lq: "get_all_balances_loop gb post ?b w2 = (b3, r3, w3)"
      by (cases "get_all_balances_loop gb post ?b w2")
    have "get_all_balances_loop gb (pre @ (p, a) # post) [] w = (b3, pre1 @ (p, a1) # r3, w3)"
      using lp gb lq by (simp add: loop_append)
    with l sp have b3: "balances = b3" by simp
    have "p \<notin> fst ` set post" using d sp by auto
    then have "map_of b3 p = map_of ?b p" by (rule loop_preserves_entry[OF lq])
    also have "\<dots> = Some ?v" by (simp add: update_conv')
    finally show ?thesis using b3 gb by simp
  qed
  show ?thesis using k len r' ent by auto
qed

theorem get_all_balances_entries_witness:
  "distinct (map fst (platforms \<lparr> platforms = [(SOLANA, False), (KALSHI, True)] \<rparr>))
   \<and> get_all_balances
        (\<lambda>a w. (if a then Inr (JObj [(''USD'', JNum 5)]) else Inl (TransportError ''down''),
                  a, Suc w))
        \<lparr> platforms = [(SOLANA, False), (KALSHI, True)] \<rparr> (0::nat)
      = ([(SOLANA, JObj []), (KALSHI, JObj [(''USD'', JNum 5)])],
         \<lparr> platforms = [(SOLANA, False), (KALSHI, True)] \<rparr>, 2)
   \<and> length [(SOLANA, JObj []), (KALSHI, JObj [(''USD'', JNum 5)])]
       = length (platforms \<lparr> platforms = [(SOLANA, False), (KALSHI, True)] \<rparr>)
   \<and> map_of [(SOLANA, JObj []), (KALSHI, JObj [(''USD'', JNum 5)])] KALSHI
       = Some (JObj [(''USD'', JNum 5)])"
proof -
  let ?gb = "\<lambda>(a::bool) (w::nat).
      (if a then Inr (JObj [(''USD'', JNum 5)]) else Inl (TransportError ''down''), a, Suc w)"
  let ?r = "\<lparr> platforms = [(SOLANA, False), (KALSHI, True)] \<rparr>"
  let ?b = "[(SOLANA, JObj []), (KALSHI, JObj [(''USD'', JNum 5)])]"
  have d: "distinct (map fst (platforms ?r))" by simp
  have g: "get_all_balances ?gb ?r 0 = (?b, ?r, 2)"
    by (simp add: get_all_balances_def)
  have lp: "get_all_balances_loop ?gb [(SOLANA, False)] [] 0
              = ([(SOLANA, JObj [])], [(SOLANA, False)], 1)"
    by simp
  have sp: "platforms ?r = [(SOLANA, False)] @ (KALSHI, True) # []" by simp
  from get_all_balances_entries[OF d g]
  have "length ?b = length (platforms ?r)"
    and "\<forall>pre p a post b1 pre1 w1.
            platforms ?r = pre @ (p, a) # post \<and>
            get_all_balances_loop ?gb pre [] 0 = (b1, pre1, w1) \<longrightarrow>
            map_of ?b p = Some (case fst (?gb a w1) of Inl e \<Rightarrow> JObj [] | Inr b \<Rightarrow> b)"
    by blast+
  then have "map_of ?b KALSHI
      = Some (case fst (?gb True 1) of Inl e \<Rightarrow> JObj [] | Inr b \<Rightarrow> b)"
    using sp lp by blast
  then show ?thesis using d g by simp
qed

section \<open>Properties of the adapters\<close>

text \<open>None of the three \<open>get_balance\<close> methods raises.\<close>

lemma solana_get_balance_returns: "\<exists>b. fst (solana_get_balance tr self w) = Inr b"
  by (auto simp: solana_get_balance_def split: option.splits prod.splits)

lemma polymarket_get_balance_returns: "\<exists>b. fst (polymarket_get_balance tr self w) = Inr b"
  by (auto simp: polymarket_get_balance_def split: option.splits prod.splits)

lemma kalshi_get_balance_returns: "\<exists>b. fst (kalshi_get_balance tr self w) = Inr b"
  by (auto simp: kalshi_get_balance_def split: option.splits prod.splits)

text \<open>So \<open>validate_trade\<close> is decided by the request alone.\<close>

lemma validate_trade_result:
  assumes "\<And>s v. \<exists>b. fst (gb s v) = Inr b"
  shows "fst (validate_trade gb trade self w) =
     (if amount trade \<le> 0 then (False, Some ''Amount must be positive'')
      else if slippage trade < 0 \<or> slippage trade > 1
        then (False, Some ''Slippage must be between 0 and 1'')
      else (True, None))"
proof -
  obtain b where "fst (gb self w) = Inr b" using assms by blast
  then show ?thesis
    by (cases "gb self w") (auto simp: validate_trade_def)
qed

lemma solana_no_wallet:
  assumes "s_wallet self = None"
  shows "solana_execute_trade L tr now trade self w =
     (failed_result SOLANA now (Some ''Wallet not initialized''), self, w)"
  using assms
  by (simp add: solana_execute_trade_def solana_execute_trade_body_def catch_failed_def)

lemma solana_invalid:
  assumes "s_wallet self = Some kp"
    and "amount trade \<le> 0 \<or> slippage trade < 0 \<or> slippage trade > 1"
  shows "fst (solana_execute_trade L tr now trade self w) =
     failed_result SOLANA now
       (Some (if amount trade \<le> 0 then ''Amount must be positive''
              else ''Slippage must be between 0 and 1''))"
proof -
  have v: "fst (validate_trade (solana_get_balance tr) trade self w) =
     (if amount trade \<le> 0 then (False, Some ''Amount must be positive'')
      else if slippage trade < 0 \<or> slippage trade > 1
        then (False, Some ''Slippage must be between 0 and 1'')
      else (True, None))"
    by (rule validate_trade_result) (rule solana_get_balance_returns)
  obtain r s1 w1 where "validate_trade (solana_get_balance tr) trade self w = (r, s1, w1)"
    by (cases "validate_trade (solana_get_balance tr) trade self w")
  with v assms show ?thesis
    by (auto simp: solana_execute_trade_def solana_execute_trade_body_def catch_failed_def)
qed

lemma polymarket_invalid:
  assumes "amount trade \<le> 0 \<or> slippage trade < 0 \<or> slippage trade > 1"
  shows "fst (polymarket_execute_trade L tr now trade self w) =
     failed_result POLYMARKET now
       (Some (if amount trade \<le> 0 then ''Amount must be positive''
              else ''Slippage must be between 0 and 1''))"
proof -
  have v: "fst (validate_trade (polymarket_get_balance tr) trade self w) =
     (if amount trade \<le> 0 then (False, Some ''Amount must be positive'')
      else if slippage trade < 0 \<or> slippage trade > 1
        then (False, Some ''Slippage must be between 0 and 1'')
      else (True, None))"
    by (rule validate_trade_result) (rule polymarket_get_balance_returns)
  obtain r s1 w1 where "validate_trade (polymarket_get_balance tr) trade self w = (r, s1, w1)"
    by (cases "validate_trade (polymarket_get_balance tr) trade self w")
  with v assms show ?thesis
    by (auto simp: polymarket_execute_trade_def polymarket_execute_trade_body_def
        catch_failed_def)
qed

lemma kalshi_invalid:
  assumes "amount trade \<le> 0 \<or> slippage trade < 0 \<or> slippage trade > 1"
  shows "fst (kalshi_execute_trade L tr now trade self w) =
     failed_result KALSHI now
       (Some (if amount trade \<le> 0 then ''Amount must be positive''
              else ''Slippage must be between 0 and 1''))"
proof -
  have v: "fst (validate_trade (kalshi_get_balance tr) trade self w) =
     (if amount trade \<le> 0 then (False, Some ''Amount must be positive'')
      else if slippage trade < 0 \<or> slippage trade > 1
        then (False, Some ''Slippage must be between 0 and 1'')
      else (True, None))"
    by (rule validate_trade_result) (rule kalshi_get_balance_returns)
  obtain r s1 w1 where "validate_trade (kalshi_get_balance tr) trade self w = (r, s1, w1)"
    by (cases "validate_trade (kalshi_get_balance tr) trade self w")
  with v assms show ?thesis
    by (auto simp: kalshi_execute_trade_def kalshi_execute_trade_body_def catch_failed_def)
qed

text \<open>What every adapter answers to a request that fails the shared validation.\<close>

lemma invalid_request_result:
  assumes "amount trade \<le> 0 \<or> slippage trade < 0 \<or> slippage trade > 1"
  shows "fst (execute_trade L tr now trade a w) =
     failed_result
       (case a of Solana s \<Rightarrow> SOLANA | Polymarket s \<Rightarrow> POLYMARKET | Kalshi s \<Rightarrow> KALSHI) now
       (Some (case a of
          Solana s \<Rightarrow>
            (if s_wallet s = None then ''Wallet not initialized''
             else if amount trade \<le> 0 then ''Amount must be positive''
             else ''Slippage must be between 0 and 1'')
        | Polymarket s \<Rightarrow>
            (if amount trade \<le> 0 then ''Amount must be positive''
             else ''Slippage must be between 0 and 1'')
        | Kalshi s \<Rightarrow>
            (if amount trade \<le> 0 then ''Amount must be positive''
             else ''Slippage must be between 0 and 1'')))"
proof (cases a)
  case (Solana s)
  show ?thesis
  proof (cases "s_wallet s")
    case None
    then show ?thesis using Solana solana_no_wallet[of s L tr now trade w] by simp
  next
    case (Some kp)
    from solana_invalid[OF Some assms, of L tr now w] Some Solana show ?thesis
      by (cases "solana_execute_trade L tr now trade s w") auto
  qed
next
  case (Polymarket s)
  from polymarket_invalid[OF assms, of L tr now s w] Polymarket show ?thesis
    by (cases "polymarket_execute_trade L tr now trade s w") auto
next
  case (Kalshi s)
  from kalshi_invalid[OF assms, of L tr now s w] Kalshi show ?thesis
    by (cases "kalshi_execute_trade L tr now trade s w") auto
qed

lemma wallet_message_not_validation: "\<not> validation_message ''Wallet not initialized''"
  by (simp add: validation_message_def)

text \<open>
  C2, as stated, fails: a Solana adapter without a wallet answers a request with
  \<open>amount = 0\<close> with \<open>Wallet not initialized\<close>, which is not a message of
  \<open>validate_trade\<close> (the wallet guard returns before validation is reached).
\<close>

theorem amount_validation_counterexample:
  "amount \<lparr> platform = SOLANA, trade_type = SWAP, symbol = ''SOL/USDC'', amount = 0,
            price = None, slippage = 0.01, metadata = [] \<rparr> \<le> 0
   \<and> error (fst (execute_trade example_lib venue_accepts 0
        \<lparr> platform = SOLANA, trade_type = SWAP, symbol = ''SOL/USDC'', amount = 0,
          price = None, slippage = 0.01, metadata = [] \<rparr>
        (Solana \<lparr> s_rpc_url = ''https://api.mainnet-beta.solana.com'', s_client = False,
                  s_wallet = None \<rparr>) []))
       = Some ''Wallet not initialized''
   \<and> \<not> validation_message ''Wallet not initialized''"
  by (simp add: solana_execute_trade_def solana_execute_trade_body_def catch_failed_def
      failed_result_def validation_message_def)

text \<open>
  C2, amended. For every request with \<open>amount \<le> 0\<close>, \<open>execute_trade\<close> of every adapter
  variant returns a result with status failed (it does not raise). On Polymarket, on
  Kalshi and on a Solana adapter that holds a wallet the error is the validation message
  \<open>Amount must be positive\<close>; on a Solana adapter without a wallet it is
  \<open>Wallet not initialized\<close>.
\<close>

theorem amount_not_positive_fails:
  assumes "amount trade \<le> 0"
  shows "status (fst (execute_trade L tr now trade a w)) = FAILED
       \<and> error (fst (execute_trade L tr now trade a w)) =
           Some (case a of
                   Solana s \<Rightarrow> (if s_wallet s = None then ''Wallet not initialized''
                                 else ''Amount must be positive'')
                 | Polymarket s \<Rightarrow> ''Amount must be positive''
                 | Kalshi s \<Rightarrow> ''Amount must be positive'')
       \<and> validation_message ''Amount must be positive''"
proof -
  have "amount trade \<le> 0 \<or> slippage trade < 0 \<or> slippage trade > 1"
    using assms by simp
  from invalid_request_result[OF this, of L tr now a w] assms show ?thesis
    by (cases a) (simp_all add: failed_result_def validation_message_def)
qed

theorem amount_not_positive_fails_witness:
  "amount \<lparr> platform = KALSHI, trade_type = BUY, symbol = ''M'', amount = -1,
            price = None, slippage = 0.01, metadata = [] \<rparr> \<le> 0
   \<and> status (fst (execute_trade example_lib venue_accepts 0
        \<lparr> platform = KALSHI, trade_type = BUY, symbol = ''M'', amount = -1,
          price = None, slippage = 0.01, metadata = [] \<rparr>
        (Kalshi \<lparr> k_api_key = None, k_private_key = None, k_session = NoSession,
                  k_token = JNull \<rparr>) [])) = FAILED
   \<and> error (fst (execute_trade example_lib venue_accepts 0
        \<lparr> platform = KALSHI, trade_type = BUY, symbol = ''M'', amount = -1,
          price = None, slippage = 0.01, metadata = [] \<rparr>
        (Kalshi \<lparr> k_api_key = None, k_private_key = None, k_session = NoSession,
                  k_token = JNull \<rparr>) [])) = Some ''Amount must be positive''"
  using amount_not_positive_fails
    [of "\<lparr> platform = KALSHI, trade_type = BUY, symbol = ''M'', amount = -1,
           price = None, slippage = 0.01, metadata = [] \<rparr>"
        example_lib venue_accepts 0
        "Kalshi \<lparr> k_api_key = None, k_private_key = None, k_session = NoSession,
                  k_token = JNull \<rparr>" "[]"]
  by simp

text \<open>
  C6, as stated, fails for the same reason: a Solana adapter without a wallet answers a
  request with \<open>slippage = 2\<close> with \<open>Wallet not initialized\<close>.
\<close>

theorem slippage_validation_counterexample:
  "slippage \<lparr> platform = SOLANA, trade_type = SWAP, symbol = ''SOL/USDC'', amount = 1,
              price = None, slippage = 2, metadata = [] \<rparr> > 1
   \<and> error (fst (execute_trade example_lib venue_accepts 0
        \<lparr> platform = SOLANA, trade_type = SWAP, symbol = ''SOL/USDC'', amount = 1,
          price = None, slippage = 2, metadata = [] \<rparr>
        (Solana \<lparr> s_rpc_url = ''https://api.mainnet-beta.solana.com'', s_client = False,
                  s_wallet = None \<rparr>) []))
       = Some ''Wallet not initialized''
   \<and> \<not> validation_message ''Wallet not initialized''"
  by (simp add: solana_execute_trade_def solana_execute_trade_body_def catch_failed_def
      failed_result_def validation_message_def)

text \<open>
  C6, amended. For every request with \<open>slippage < 0\<close> or \<open>slippage > 1\<close>,
  \<open>execute_trade\<close> of every adapter variant returns a result with status failed. On
  Polymarket, on Kalshi and on a Solana adapter that holds a wallet the error is a
  validation message: \<open>Amount must be positive\<close> when also \<open>amount \<le> 0\<close> (that check
  comes first), \<open>Slippage must be between 0 and 1\<close> otherwise. On a Solana adapter
  without a wallet the error is \<open>Wallet not initialized\<close>.
\<close>

theorem slippage_out_of_range_fails:
  assumes "slippage trade < 0 \<or> slippage trade > 1"
  shows "status (fst (execute_trade L tr now trade a w)) = FAILED
       \<and> error (fst (execute_trade L tr now trade a w)) =
           Some (case a of
                   Solana s \<Rightarrow>
                     (if s_wallet s = None then ''Wallet not initialized''
                      else if amount trade \<le> 0 then ''Amount must be positive''
                      else ''Slippage must be between 0 and 1'')
                 | Polymarket s \<Rightarrow>
                     (if amount trade \<le> 0 then ''Amount must be positive''
                      else ''Slippage must be between 0 and 1'')
                 | Kalshi s \<Rightarrow>
                     (if amount trade \<le> 0 then ''Amount must be positive''
                      else ''Slippage must be between 0 and 1''))
       \<and> validation_message ''Amount must be positive''
       \<and> validation_message ''Slippage must be between 0 and 1''"
proof -
  have "amount trade \<le> 0 \<or> slippage trade < 0 \<or> slippage trade > 1"
    using assms by blast
  from invalid_request_result[OF this, of L tr now a w] show ?thesis
    by (cases a) (simp_all add: failed_result_def validation_message_def)
qed

theorem slippage_out_of_range_fails_witness:
  "(slippage \<lparr> platform = POLYMARKET, trade_type = BUY, symbol = ''M'', amount = 1,
               price = None, slippage = 2, metadata = [] \<rparr> < 0
    \<or> slippage \<lparr> platform = POLYMARKET, trade_type = BUY, symbol = ''M'', amount = 1,
                 price = None, slippage = 2, metadata = [] \<rparr> > 1)
   \<and> status (fst (execute_trade example_lib venue_accepts 0
        \<lparr> platform = POLYMARKET, trade_type = BUY, symbol = ''M'', amount = 1,
          price = None, slippage = 2, metadata = [] \<rparr>
        (Polymarket \<lparr> p_api_key = None, p_secret = None, p_passphrase = None,
                      p_session = NoSession \<rparr>) [])) = FAILED
   \<and> error (fst (execute_trade example_lib venue_accepts 0
        \<lparr> platform = POLYMARKET, trade_type = BUY, symbol = ''M'', amount = 1,
          price = None, slippage = 2, metadata = [] \<rparr>
        (Polymarket \<lparr> p_api_key = None, p_secret = None, p_passphrase = None,
                      p_session = NoSession \<rparr>) []))
       = Some ''Slippage must be between 0 and 1''"
  using slippage_out_of_range_fails
    [of "\<lparr> platform = POLYMARKET, trade_type = BUY, symbol = ''M'', amount = 1,
           price = None, slippage = 2, metadata = [] \<rparr>"
        example_lib venue_accepts 0
        "Polymarket \<lparr> p_api_key = None, p_secret = None, p_passphrase = None,
                      p_session = NoSession \<rparr>" "[]"]
  by simp

text \<open>
  C3, as stated, fails on the text of the error: the code's message is
  \<open>Wallet not initialized\<close>, with a capital \<open>W\<close>, so a comparison with
  \<open>wallet not initialized\<close> does not hold.
\<close>

theorem wallet_message_counterexample:
  "private_key \<lparr> cred_platform = SOLANA, rpc_url = None, api_key = None, secret = None,
                 private_key = None, passphrase = None, wallet_address = None,
                 cred_metadata = [] \<rparr> = None
   \<and> SolanaAdapter_initialize example_lib
        \<lparr> cred_platform = SOLANA, rpc_url = None, api_key = None, secret = None,
          private_key = None, passphrase = None, wallet_address = None,
          cred_metadata = [] \<rparr>
      = Inr \<lparr> s_rpc_url = ''https://api.mainnet-beta.solana.com'', s_client = False,
              s_wallet = None \<rparr>
   \<and> error (fst (solana_execute_trade example_lib venue_accepts 0
        \<lparr> platform = SOLANA, trade_type = SWAP, symbol = ''SOL/USDC'', amount = 1,
          price = None, slippage = 0.01, metadata = [] \<rparr>
        \<lparr> s_rpc_url = ''https://api.mainnet-beta.solana.com'', s_client = False,
          s_wallet = None \<rparr> []))
       = Some ''Wallet not initialized''
   \<and> error (fst (solana_execute_trade example_lib venue_accepts 0
        \<lparr> platform = SOLANA, trade_type = SWAP, symbol = ''SOL/USDC'', amount = 1,
          price = None, slippage = 0.01, metadata = [] \<rparr>
        \<lparr> s_rpc_url = ''https://api.mainnet-beta.solana.com'', s_client = False,
          s_wallet = None \<rparr> []))
       \<noteq> Some ''wallet not initialized''"
  by (simp add: SolanaAdapter_initialize_def solana_execute_trade_def
      solana_execute_trade_body_def catch_failed_def failed_result_def)

text \<open>
  C3, amended. A Solana adapter constructed from credentials with no private key is
  constructed without error, and every \<open>execute_trade\<close> call on it returns a result
  whose status is failed and whose error is the text \<open>Wallet not initialized\<close>, leaving
  the adapter and the log of network requests as they were (no network call is made);
  \<open>cancel_order\<close> returns false for every order id.
\<close>

theorem solana_without_private_key:
  assumes "private_key credentials = None"
  shows "\<exists>self. SolanaAdapter_initialize L credentials = Inr self
       \<and> (\<forall>tr now trade w.
            status (fst (solana_execute_trade L tr now trade self w)) = FAILED
            \<and> error (fst (solana_execute_trade L tr now trade self w))
                = Some ''Wallet not initialized''
            \<and> snd (solana_execute_trade L tr now trade self w) = (self, w))
       \<and> (\<forall>order_id. solana_cancel_order self order_id = False)"
proof -
  obtain self where i: "SolanaAdapter_initialize L credentials = Inr self"
    and nw: "s_wallet self = None"
    using assms by (simp add: SolanaAdapter_initialize_def Let_def)
  show ?thesis
    using i solana_no_wallet[OF nw]
    by (simp add: failed_result_def solana_cancel_order_def)
qed

theorem solana_without_private_key_witness:
  "private_key \<lparr> cred_platform = SOLANA, rpc_url = Some ''http://localhost:8899'',
                 api_key = None, secret = None, private_key = None, passphrase = None,
                 wallet_address = None, cred_metadata = [] \<rparr> = None
   \<and> (\<exists>self. SolanaAdapter_initialize example_lib
          \<lparr> cred_platform = SOLANA, rpc_url = Some ''http://localhost:8899'',
            api_key = None, secret = None, private_key = None, passphrase = None,
            wallet_address = None, cred_metadata = [] \<rparr> = Inr self
        \<and> status (fst (solana_execute_trade example_lib venue_accepts 3
             \<lparr> platform = SOLANA, trade_type = SWAP, symbol = ''SOL/USDC'', amount = 1,
               price = None, slippage = 0.01, metadata = [] \<rparr> self [])) = FAILED
        \<and> error (fst (solana_execute_trade example_lib venue_accepts 3
             \<lparr> platform = SOLANA, trade_type = SWAP, symbol = ''SOL/USDC'', amount = 1,
               price = None, slippage = 0.01, metadata = [] \<rparr> self []))
            = Some ''Wallet not initialized''
        \<and> snd (solana_execute_trade example_lib venue_accepts 3
             \<lparr> platform = SOLANA, trade_type = SWAP, symbol = ''SOL/USDC'', amount = 1,
               price = None, slippage = 0.01, metadata = [] \<rparr> self []) = (self, [])
        \<and> solana_cancel_order self ''tx'' = False)"
proof -
  have h: "private_key \<lparr> cred_platform = SOLANA, rpc_url = Some ''http://localhost:8899'',
                 api_key = None, secret = None, private_key = None, passphrase = None,
                 wallet_address = None, cred_metadata = [] \<rparr> = None"
    by simp
  from solana_without_private_key[OF h, of example_lib] h show ?thesis
    by blast
qed

text \<open>
  C10. In the Solana adapter the wallet check comes before validation: on an adapter
  without a wallet, every request, also one that validation would reject, gets the error
  \<open>Wallet not initialized\<close>, which is not a validation message; adapter and network
  log are unchanged.
\<close>

theorem solana_wallet_check_precedes_validation:
  assumes "s_wallet self = None"
  shows "error (fst (solana_execute_trade L tr now trade self w))
           = Some ''Wallet not initialized''
       \<and> \<not> validation_message ''Wallet not initialized''
       \<and> snd (solana_execute_trade L tr now trade self w) = (self, w)"
  using solana_no_wallet[OF assms, of L tr now trade w] wallet_message_not_validation
  by (simp add: failed_result_def)

theorem solana_wallet_check_precedes_validation_witness:
  "s_wallet \<lparr> s_rpc_url = ''https://api.mainnet-beta.solana.com'', s_client = False,
              s_wallet = None \<rparr> = None
   \<and> amount \<lparr> platform = SOLANA, trade_type = SWAP, symbol = ''SOL/USDC'', amount = -5,
              price = None, slippage = 0.01, metadata = [] \<rparr> \<le> 0
   \<and> error (fst (solana_execute_trade example_lib venue_accepts 0
        \<lparr> platform = SOLANA, trade_type = SWAP, symbol = ''SOL/USDC'', amount = -5,
          price = None, slippage = 0.01, metadata = [] \<rparr>
        \<lparr> s_rpc_url = ''https://api.mainnet-beta.solana.com'', s_client = False,
          s_wallet = None \<rparr> []))
       = Some ''Wallet not initialized''"
  using solana_wallet_check_precedes_validation
    [of "\<lparr> s_rpc_url = ''https://api.mainnet-beta.solana.com'', s_client = False,
           s_wallet = None \<rparr>"
        example_lib venue_accepts 0
        "\<lparr> platform = SOLANA, trade_type = SWAP, symbol = ''SOL/USDC'', amount = -5,
           price = None, slippage = 0.01, metadata = [] \<rparr>" "[]"]
  by simp

text \<open>
  With a wallet and a request that passes validation, the Solana adapter answers a
  trade type other than \<open>swap\<close> with a failed result.
\<close>

lemma solana_rejects_buy_and_sell:
  assumes "s_wallet self = Some kp" and "0 < amount trade"
    and "0 \<le> slippage trade" and "slippage trade \<le> 1"
    and "trade_type trade \<noteq> SWAP"
  shows "fst (solana_execute_trade L tr now trade self w) =
     failed_result SOLANA now
       (Some (''Trade type '' @ format_trade_type L (trade_type trade) @ '' not supported''))"
proof -
  have v: "fst (validate_trade (solana_get_balance tr) trade self w) = (True, None)"
    using validate_trade_result[of "solana_get_balance tr" trade self w]
      solana_get_balance_returns assms by auto
  obtain r s1 w1 where "validate_trade (solana_get_balance tr) trade self w = (r, s1, w1)"
    by (cases "validate_trade (solana_get_balance tr) trade self w")
  with v assms show ?thesis
    by (auto simp: solana_execute_trade_def solana_execute_trade_body_def catch_failed_def)
qed

lemma upper_values:
  "upper ''buy'' = ''BUY''" "upper ''sell'' = ''SELL''" "upper ''swap'' = ''SWAP''"
  by code_simp+

text \<open>
  C5. The two order-driven adapters do not reject the trade type \<open>swap\<close>: neither
  looks at the trade type before submitting. Polymarket turns everything that is not \<open>buy\<close> into a \<open>SELL\<close> order,
  Kalshi submits the action \<open>SWAP\<close>; when the venue accepts the order, the result is
  completed. Below, a \<open>swap\<close> request of amount 1 on both adapters, against a venue
  that accepts every request: the status of the result and the bodies of the requests
  that were sent.
\<close>

theorem order_venues_submit_swap:
  "status (fst (polymarket_execute_trade example_lib venue_accepts 0
      \<lparr> platform = POLYMARKET, trade_type = SWAP, symbol = ''M'', amount = 1,
        price = None, slippage = 0.01, metadata = [] \<rparr>
      \<lparr> p_api_key = None, p_secret = None, p_passphrase = None, p_session = NoSession \<rparr>
      [])) = COMPLETED
   \<and> map body (snd (snd (polymarket_execute_trade example_lib venue_accepts 0
      \<lparr> platform = POLYMARKET, trade_type = SWAP, symbol = ''M'', amount = 1,
        price = None, slippage = 0.01, metadata = [] \<rparr>
      \<lparr> p_api_key = None, p_secret = None, p_passphrase = None, p_session = NoSession \<rparr>
      []))) =
     [JNull,
      JObj [(''market'', JStr ''M''), (''side'', JStr ''SELL''), (''size'', JNum 1),
            (''price'', JNull), (''type'', JStr ''MARKET'')]]
   \<and> status (fst (kalshi_execute_trade example_lib venue_accepts 0
      \<lparr> platform = KALSHI, trade_type = SWAP, symbol = ''M'', amount = 1,
        price = None, slippage = 0.01, metadata = [] \<rparr>
      \<lparr> k_api_key = None, k_private_key = None, k_session = NoSession, k_token = JNull \<rparr>
      [])) = COMPLETED
   \<and> last (map body (snd (snd (kalshi_execute_trade example_lib venue_accepts 0
      \<lparr> platform = KALSHI, trade_type = SWAP, symbol = ''M'', amount = 1,
        price = None, slippage = 0.01, metadata = [] \<rparr>
      \<lparr> k_api_key = None, k_private_key = None, k_session = NoSession, k_token = JNull \<rparr>
      [])))) =
     JObj [(''ticker'', JStr ''M''), (''action'', JStr ''SWAP''), (''count'', JNum 1),
           (''type'', JStr ''market''), (''side'', JStr ''yes'')]"
  by (simp add: polymarket_execute_trade_def polymarket_execute_trade_body_def
      validate_trade_def polymarket_get_balance_def polymarket_make_request_def send_def
      venue_accepts_def bind_exn_def dict_get_def polymarket_result_def
      polymarket_order_data_def catch_failed_def example_lib_def str_field_def
      opt_str_field_def opt_float_field_def float_field_def
      kalshi_execute_trade_def kalshi_execute_trade_body_def kalshi_get_balance_def
      kalshi_make_request_def kalshi_authenticate_def kalshi_result_def
      kalshi_order_data_def truediv_def opt_str_json_def upper_values py_int_def)

section \<open>Properties of the constructor and of the decision parser\<close>

text \<open>
  C9, as stated, fails in its second half. The constructor returns a request with the
  default slippage; \<open>trade.slippage = 2\<close> is then stored unchecked, and the Polymarket
  adapter, handed this request, observes a slippage above 1 and answers from the
  slippage branch of \<open>validate_trade\<close>.
\<close>

theorem assigned_slippage_counterexample:
  "TradeRequest_init example_lib POLYMARKET BUY (JStr ''M'') (JNum 1) JNull None []
     = Inr \<lparr> platform = POLYMARKET, trade_type = BUY, symbol = ''M'', amount = 1,
             price = None, slippage = 0.01, metadata = [] \<rparr>
   \<and> 1 < slippage (TradeRequest_set_slippage 2
            \<lparr> platform = POLYMARKET, trade_type = BUY, symbol = ''M'', amount = 1,
              price = None, slippage = 0.01, metadata = [] \<rparr>)
   \<and> fst (validate_trade (polymarket_get_balance venue_accepts)
        (TradeRequest_set_slippage 2
            \<lparr> platform = POLYMARKET, trade_type = BUY, symbol = ''M'', amount = 1,
              price = None, slippage = 0.01, metadata = [] \<rparr>)
        \<lparr> p_api_key = None, p_secret = None, p_passphrase = None, p_session = NoSession \<rparr>
        [])
      = (False, Some ''Slippage must be between 0 and 1'')
   \<and> error (fst (polymarket_execute_trade example_lib venue_accepts 0
        (TradeRequest_set_slippage 2
            \<lparr> platform = POLYMARKET, trade_type = BUY, symbol = ''M'', amount = 1,
              price = None, slippage = 0.01, metadata = [] \<rparr>)
        \<lparr> p_api_key = None, p_secret = None, p_passphrase = None, p_session = NoSession \<rparr>
        []))
      = Some ''Slippage must be between 0 and 1''"
  by (simp add: TradeRequest_init_def bind_exn_def str_field_def float_field_def
      opt_float_field_def TradeRequest_set_slippage_def validate_trade_def
      polymarket_get_balance_def polymarket_make_request_def send_def venue_accepts_def
      dict_get_def polymarket_execute_trade_def polymarket_execute_trade_body_def
      catch_failed_def failed_result_def)

text \<open>
  C9, amended. The constructor checks the slippage: a request that it returns has
  \<open>0 \<le> slippage \<le> 1\<close>, and on that request \<open>validate_trade\<close> (with any subclass's
  \<open>get_balance\<close>) does not return its slippage rejection; an argument that is a number
  outside \<open>[0, 1]\<close> makes the constructor raise, and one inside \<open>[0, 1]\<close> is kept as
  the slippage when the other fields are accepted. The branch is nevertheless reachable:
  on a request of positive amount whose slippage was assigned a value outside \<open>[0, 1]\<close>
  after construction, \<open>validate_trade\<close> returns the slippage rejection whenever
  \<open>get_balance\<close> returns.
\<close>

theorem constructor_checks_slippage:
  "(TradeRequest_init L p tt sy amt pr slip md = Inr t \<longrightarrow>
      0 \<le> slippage t \<and> slippage t \<le> 1
      \<and> (\<forall>gb self w. snd (fst (validate_trade gb t self w))
             \<noteq> Some ''Slippage must be between 0 and 1''))
   \<and> (float_field L v = Inr x \<and> (x < 0 \<or> 1 < x) \<longrightarrow>
        (\<exists>e. TradeRequest_init L p tt sy amt pr (Some v) md = Inl e))
   \<and> (str_field L sy = Inr s \<and> float_field L amt = Inr a \<and> opt_float_field L pr = Inr q
        \<and> float_field L u = Inr y \<and> 0 \<le> y \<and> y \<le> 1 \<longrightarrow>
        TradeRequest_init L p tt sy amt pr (Some u) md =
          Inr \<lparr> platform = p, trade_type = tt, symbol = s, amount = a, price = q,
                slippage = y, metadata = md \<rparr>)
   \<and> (0 < amount t' \<and> (x' < 0 \<or> 1 < x') \<and> fst (gb' self' w') = Inr b \<longrightarrow>
        fst (validate_trade gb' (TradeRequest_set_slippage x' t') self' w')
          = (False, Some ''Slippage must be between 0 and 1''))"
proof (intro conjI impI)
  assume c: "TradeRequest_init L p tt sy amt pr slip md = Inr t"
  show lo: "0 \<le> slippage t" and hi: "slippage t \<le> 1"
    using c
    by (auto simp: TradeRequest_init_def bind_exn_def
        split: sum.splits option.splits if_splits)
  have "snd (fst (validate_trade gb t self w)) \<noteq> Some ''Slippage must be between 0 and 1''"
    for gb :: "'a \<Rightarrow> net \<Rightarrow> (exn + json) \<times> 'a \<times> net" and self w
    using lo hi by (cases "gb self w") (auto simp: validate_trade_def split: sum.splits)
  then show "\<forall>(gb :: 'a \<Rightarrow> net \<Rightarrow> (exn + json) \<times> 'a \<times> net) self w.
      snd (fst (validate_trade gb t self w)) \<noteq> Some ''Slippage must be between 0 and 1''"
    by blast
next
  assume "float_field L v = Inr x \<and> (x < 0 \<or> 1 < x)"
  then show "\<exists>e. TradeRequest_init L p tt sy amt pr (Some v) md = Inl e"
    by (auto simp: TradeRequest_init_def bind_exn_def split: sum.splits)
next
  assume "str_field L sy = Inr s \<and> float_field L amt = Inr a \<and> opt_float_field L pr = Inr q
        \<and> float_field L u = Inr y \<and> 0 \<le> y \<and> y \<le> 1"
  then show "TradeRequest_init L p tt sy amt pr (Some u) md =
          Inr \<lparr> platform = p, trade_type = tt, symbol = s, amount = a, price = q,
                slippage = y, metadata = md \<rparr>"
    by (simp add: TradeRequest_init_def bind_exn_def)
next
  assume "0 < amount t' \<and> (x' < 0 \<or> 1 < x') \<and> fst (gb' self' w') = Inr b"
  then show "fst (validate_trade gb' (TradeRequest_set_slippage x' t') self' w')
          = (False, Some ''Slippage must be between 0 and 1'')"
    by (cases "gb' self' w'")
      (auto simp: validate_trade_def TradeRequest_set_slippage_def)
qed

theorem constructor_checks_slippage_witness:
  "TradeRequest_init example_lib SOLANA SWAP (JStr ''SOL/USDC'') (JNum 0.1) JNull
      (Some (JNum 0.5)) []
     = Inr \<lparr> platform = SOLANA, trade_type = SWAP, symbol = ''SOL/USDC'', amount = 0.1,
             price = None, slippage = 0.5, metadata = [] \<rparr>
   \<and> 0 \<le> slippage \<lparr> platform = SOLANA, trade_type = SWAP, symbol = ''SOL/USDC'',
                     amount = 0.1, price = None, slippage = 0.5, metadata = [] \<rparr>
   \<and> slippage \<lparr> platform = SOLANA, trade_type = SWAP, symbol = ''SOL/USDC'',
                 amount = 0.1, price = None, slippage = 0.5, metadata = [] \<rparr> \<le> 1
   \<and> float_field example_lib (JNum 2) = Inr 2
   \<and> (\<exists>e. TradeRequest_init example_lib SOLANA SWAP (JStr ''SOL/USDC'') (JNum 0.1) JNull
            (Some (JNum 2)) [] = Inl e)
   \<and> fst (polymarket_get_balance venue_accepts
        \<lparr> p_api_key = None, p_secret = None, p_passphrase = None, p_session = NoSession \<rparr>
        []) = Inr (JObj [])
   \<and> fst (validate_trade (polymarket_get_balance venue_accepts)
        (TradeRequest_set_slippage 2
           \<lparr> platform = SOLANA, trade_type = SWAP, symbol = ''SOL/USDC'', amount = 0.1,
             price = None, slippage = 0.5, metadata = [] \<rparr>)
        \<lparr> p_api_key = None, p_secret = None, p_passphrase = None, p_session = NoSession \<rparr>
        [])
      = (False, Some ''Slippage must be between 0 and 1'')"
proof -
  let ?t = "\<lparr> platform = SOLANA, trade_type = SWAP, symbol = ''SOL/USDC'', amount = 0.1,
             price = None, slippage = 0.5, metadata = [] \<rparr>"
  let ?a = "\<lparr> p_api_key = None, p_secret = None, p_passphrase = None,
              p_session = NoSession \<rparr>"
  have h: "TradeRequest_init example_lib SOLANA SWAP (JStr ''SOL/USDC'') (JNum 0.1) JNull
      (Some (JNum 0.5)) [] = Inr ?t"
    by (simp add: TradeRequest_init_def bind_exn_def str_field_def float_field_def
        opt_float_field_def)
  have f: "float_field example_lib (JNum 2) = Inr 2"
    by (simp add: float_field_def)
  have g: "fst (polymarket_get_balance venue_accepts ?a []) = Inr (JObj [])"
    by (simp add: polymarket_get_balance_def polymarket_make_request_def send_def
        venue_accepts_def bind_exn_def dict_get_def)
  have n: "0 < amount ?t" "(2::real) < 0 \<or> 1 < (2::real)"
    by simp_all
  have d: "str_field example_lib (JStr ''SOL/USDC'') = Inr ''SOL/USDC''"
    "float_field example_lib (JNum 0.1) = Inr 0.1"
    "opt_float_field example_lib JNull = Inr None"
    "float_field example_lib (JNum 0.5) = Inr 0.5" "(0::real) \<le> 0.5" "(0.5::real) \<le> 1"
    by (simp_all add: str_field_def float_field_def opt_float_field_def)
  from constructor_checks_slippage
    [where L = example_lib and p = SOLANA and tt = SWAP and sy = "JStr ''SOL/USDC''"
       and amt = "JNum 0.1" and pr = JNull and slip = "Some (JNum 0.5)" and md = "[]"
       and t = ?t and v = "JNum 2" and x = 2 and t' = ?t and x' = 2
       and gb' = "polymarket_get_balance venue_accepts" and self' = ?a and w' = "[]"
       and b = "JObj []" and s = "''SOL/USDC''" and a = "0.1" and q = None
       and u = "JNum 0.5" and y = "0.5"]
    h f g n d
  show ?thesis by blast
qed

text \<open>Facts about \<open>find\<close>, \<open>rfind\<close> and slicing.\<close>

lemma find_char_nonneg_iff: "0 \<le> find_char c s \<longleftrightarrow> c \<in> set s"
  by (induction s) (auto simp: Let_def)




lemma TradeRequest_init_fields:
  assumes "TradeRequest_init L p tt sy amt pr slip md = Inr t"
  shows "platform t = p \<and> trade_type t = tt \<and> metadata t = md"
proof -
  obtain a where a: "str_field L sy = Inr a"
    using assms by (cases "str_field L sy") (simp_all add: TradeRequest_init_def bind_exn_def)
  obtain b where b: "float_field L amt = Inr b"
    using assms a
    by (cases "float_field L amt") (simp_all add: TradeRequest_init_def bind_exn_def)
  obtain c where c: "opt_float_field L pr = Inr c"
    using assms a b
    by (cases "opt_float_field L pr") (simp_all add: TradeRequest_init_def bind_exn_def)
  let ?s = "case slip of
              None \<Rightarrow> Inr 0.01
            | Some v \<Rightarrow>
                bind_exn (float_field L v) (\<lambda>x.
                  if 0 \<le> x \<and> x \<le> 1 then Inr x
                  else Inl (ValidationError ''slippage: out of range''))"
  obtain d where d: "?s = Inr d"
    using assms a b c by (cases ?s) (simp_all add: TradeRequest_init_def bind_exn_def)
  have "t = \<lparr> platform = p, trade_type = tt, symbol = a, amount = b, price = c,
               slippage = d, metadata = md \<rparr>"
    using assms a b c d by (simp add: TradeRequest_init_def bind_exn_def)
  then show ?thesis by simp
qed

text \<open>
  When \<open>generate_trade_decision\<close> returns a request, the reply was a text with a
  fragment that decoded to an object with action \<open>trade\<close>, whose platform and trade
  type are members of the enumerations and whose symbol and amount are present.
\<close>

lemma generate_trade_decision_Some:
  assumes "generate_trade_decision L reply = Some t"
  shows "\<exists>content kv pj tj sy am.
           reply = Inr content
         \<and> 0 \<le> find_char (CHR ''{'') content
         \<and> find_char (CHR ''{'') content < rfind_char (CHR ''}'') content + 1
         \<and> loads L (py_slice content (find_char (CHR ''{'') content)
                      (rfind_char (CHR ''}'') content + 1)) = Inr (JObj kv)
         \<and> map_of kv ''action'' = Some (JStr ''trade'')
         \<and> map_of kv ''platform'' = Some pj \<and> Platform_of pj = Inr (platform t)
         \<and> map_of kv ''trade_type'' = Some tj \<and> TradeType_of tj = Inr (trade_type t)
         \<and> map_of kv ''symbol'' = Some sy \<and> map_of kv ''amount'' = Some am"
proof -
  obtain content where c: "reply = Inr content"
    and p: "parse_decision L content = Inr (Some t)"
    using assms
    by (auto simp: generate_trade_decision_def bind_exn_def split: sum.splits)
  have e: "extract_decision L content = Inr (Some t)"
    using p by (auto simp: parse_decision_def split: sum.splits exn.splits)
  let ?start = "find_char (CHR ''{'') content"
  let ?stop = "rfind_char (CHR ''}'') content + 1"
  have fr: "0 \<le> ?start \<and> ?start < ?stop"
    using e by (auto simp: extract_decision_def Let_def split: if_splits)
  then obtain d where l: "loads L (py_slice content ?start ?stop) = Inr d"
    using e by (auto simp: extract_decision_def Let_def bind_exn_def split: sum.splits)
  obtain act where a: "dict_get d ''action'' JNull = Inr act"
    using e fr l by (auto simp: extract_decision_def Let_def bind_exn_def split: sum.splits)
  then obtain kv where kv: "d = JObj kv"
    by (auto simp: dict_get_def split: json.splits)
  have act: "act = JStr ''trade''"
    using e fr l a by (auto simp: extract_decision_def Let_def bind_exn_def split: if_splits)
  have rest: "bind_exn (dict_item d ''platform'') (\<lambda>pj.
               bind_exn (Platform_of pj) (\<lambda>p.
               bind_exn (dict_item d ''trade_type'') (\<lambda>tj.
               bind_exn (TradeType_of tj) (\<lambda>tt.
               bind_exn (dict_item d ''symbol'') (\<lambda>sy.
               bind_exn (dict_item d ''amount'') (\<lambda>am.
               bind_exn (dict_get d ''price'' JNull) (\<lambda>pr.
               bind_exn (dict_get d ''slippage'' (JNum 0.01)) (\<lambda>sl.
               bind_exn (dict_get d ''reasoning'' (JStr [])) (\<lambda>re.
               bind_exn (TradeRequest_init L p tt sy am pr (Some sl) [(''reasoning'', re)])
                 (\<lambda>t. Inr (Some t))))))))))) = Inr (Some t)"
    using e fr l a act by (simp add: extract_decision_def Let_def bind_exn_def)
  obtain pj where pj: "dict_item d ''platform'' = Inr pj"
    using rest by (cases "dict_item d ''platform''") (simp_all add: bind_exn_def)
  obtain pl where pl: "Platform_of pj = Inr pl"
    using rest pj by (cases "Platform_of pj") (simp_all add: bind_exn_def)
  obtain tj where tj: "dict_item d ''trade_type'' = Inr tj"
    using rest pj pl by (cases "dict_item d ''trade_type''") (simp_all add: bind_exn_def)
  obtain tt where tt: "TradeType_of tj = Inr tt"
    using rest pj pl tj by (cases "TradeType_of tj") (simp_all add: bind_exn_def)
  obtain sy where sy: "dict_item d ''symbol'' = Inr sy"
    using rest pj pl tj tt by (cases "dict_item d ''symbol''") (simp_all add: bind_exn_def)
  obtain am where am: "dict_item d ''amount'' = Inr am"
    using rest pj pl tj tt sy by (cases "dict_item d ''amount''") (simp_all add: bind_exn_def)
  have "\<exists>pr sl md. TradeRequest_init L pl tt sy am pr sl md = Inr t"
    using rest pj pl tj tt sy am kv
    by (auto simp: bind_exn_def dict_get_def split: sum.splits)
  then have pt: "platform t = pl \<and> trade_type t = tt"
    using TradeRequest_init_fields by blast
  have m: "map_of kv ''platform'' = Some pj" "map_of kv ''trade_type'' = Some tj"
    "map_of kv ''symbol'' = Some sy" "map_of kv ''amount'' = Some am"
    using pj tj sy am kv by (auto simp: dict_item_def split: option.splits)
  have ma: "map_of kv ''action'' = Some (JStr ''trade'')"
    using a act kv by (auto simp: dict_get_def split: option.splits)
  show ?thesis
    using c fr l kv ma m pl tt pt by auto
qed

lemma Platform_of_Inr: "Platform_of v = Inr p \<Longrightarrow> v = JStr (Platform_value p)"
  by (auto simp: Platform_of_def split: if_splits)

lemma TradeType_of_Inr: "TradeType_of v = Inr tt \<Longrightarrow> v = JStr (TradeType_value tt)"
  by (auto simp: TradeType_of_def split: if_splits)

text \<open>
  C4. \<open>generate_trade_decision\<close> returns \<open>None\<close> (and, being the value of the outer
  \<open>try\<close>, raises nothing) whenever
  \<^item> the model call or the reading of its reply raised, or
  \<^item> the reply has no fragment from a first \<open>{\<close> to a last \<open>}\<close>, or
  \<^item> \<open>json.loads\<close> raises on the fragment, or decodes it to something that is not an
    object, or
  \<^item> the decoded object has action \<open>hold\<close>, or
  \<^item> its \<open>platform\<close> or \<open>trade_type\<close> is not the value of a member of the
    enumeration, or
  \<^item> one of \<open>platform\<close>, \<open>trade_type\<close>, \<open>symbol\<close>, \<open>amount\<close> is missing.
\<close>

theorem decision_discarded:
  assumes "case reply of
             Inl e \<Rightarrow> True
           | Inr content \<Rightarrow>
               (let start = find_char (CHR ''{'') content;
                    stop = rfind_char (CHR ''}'') content + 1
                in start < 0 \<or> stop \<le> start
                   \<or> (case loads L (py_slice content start stop) of
                         Inl e \<Rightarrow> True
                       | Inr (JObj kv) \<Rightarrow>
                           map_of kv ''action'' = Some (JStr ''hold'')
                           \<or> (\<exists>v. map_of kv ''platform'' = Some v
                                  \<and> (\<forall>p. v \<noteq> JStr (Platform_value p)))
                           \<or> (\<exists>v. map_of kv ''trade_type'' = Some v
                                  \<and> (\<forall>tt. v \<noteq> JStr (TradeType_value tt)))
                           \<or> map_of kv ''platform'' = None
                           \<or> map_of kv ''trade_type'' = None
                           \<or> map_of kv ''symbol'' = None
                           \<or> map_of kv ''amount'' = None
                       | Inr other \<Rightarrow> True))"
  shows "generate_trade_decision L reply = None"
proof (rule ccontr)
  assume "generate_trade_decision L reply \<noteq> None"
  then obtain t where "generate_trade_decision L reply = Some t" by blast
  from generate_trade_decision_Some[OF this]
  obtain content kv pj tj sy am where c: "reply = Inr content"
    and s0: "0 \<le> find_char (CHR ''{'') content"
    and s1: "find_char (CHR ''{'') content < rfind_char (CHR ''}'') content + 1"
    and l: "loads L (py_slice content (find_char (CHR ''{'') content)
                      (rfind_char (CHR ''}'') content + 1)) = Inr (JObj kv)"
    and a: "map_of kv ''action'' = Some (JStr ''trade'')"
    and p: "map_of kv ''platform'' = Some pj" "Platform_of pj = Inr (platform t)"
    and tt: "map_of kv ''trade_type'' = Some tj" "TradeType_of tj = Inr (trade_type t)"
    and r: "map_of kv ''symbol'' = Some sy" "map_of kv ''amount'' = Some am"
    by blast
  have "pj = JStr (Platform_value (platform t))" "tj = JStr (TradeType_value (trade_type t))"
    using p tt Platform_of_Inr TradeType_of_Inr by blast+
  with assms c s0 s1 l a p tt r show False
    by (auto simp: Let_def)
qed

theorem decision_discarded_witness:
  "(case (Inr hold_text :: exn + string) of
      Inl e \<Rightarrow> True
    | Inr content \<Rightarrow>
        (let start = find_char (CHR ''{'') content;
             stop = rfind_char (CHR ''}'') content + 1
         in start < 0 \<or> stop \<le> start
            \<or> (case loads example_lib (py_slice content start stop) of
                  Inl e \<Rightarrow> True
                | Inr (JObj kv) \<Rightarrow>
                    map_of kv ''action'' = Some (JStr ''hold'')
                    \<or> (\<exists>v. map_of kv ''platform'' = Some v
                           \<and> (\<forall>p. v \<noteq> JStr (Platform_value p)))
                    \<or> (\<exists>v. map_of kv ''trade_type'' = Some v
                           \<and> (\<forall>tt. v \<noteq> JStr (TradeType_value tt)))
                    \<or> map_of kv ''platform'' = None
                    \<or> map_of kv ''trade_type'' = None
                    \<or> map_of kv ''symbol'' = None
                    \<or> map_of kv ''amount'' = None
                | Inr other \<Rightarrow> True)))
   \<and> loads example_lib (py_slice hold_text (find_char (CHR ''{'') hold_text)
        (rfind_char (CHR ''}'') hold_text + 1))
      = Inr (JObj [(''action'', JStr ''hold''), (''reasoning'', JStr ''flat market'')])
   \<and> generate_trade_decision example_lib (Inr hold_text) = None
   \<and> generate_trade_decision example_lib (Inl (TransportError ''timed out'')) = None
   \<and> find_char (CHR ''{'') ''I would wait.'' < 0
   \<and> generate_trade_decision example_lib (Inr ''I would wait.'') = None
   \<and> loads example_lib (py_slice ''{ not a document }'' (find_char (CHR ''{'') ''{ not a document }'')
        (rfind_char (CHR ''}'') ''{ not a document }'' + 1))
      = Inl (JSONDecodeError ''Expecting value'')
   \<and> generate_trade_decision example_lib (Inr ''{ not a document }'') = None
   \<and> loads example_lib (py_slice unknown_venue_text (find_char (CHR ''{'') unknown_venue_text)
        (rfind_char (CHR ''}'') unknown_venue_text + 1))
      = Inr (JObj [(''action'', JStr ''trade''), (''platform'', JStr ''binance''),
                   (''trade_type'', JStr ''buy''), (''symbol'', JStr ''BTC''),
                   (''amount'', JNum 1)])
   \<and> generate_trade_decision example_lib (Inr unknown_venue_text) = None"
proof -
  have f: "find_char (CHR ''{'') hold_text = 0"
    by (simp add: hold_text_def)
  have r: "rfind_char (CHR ''}'') hold_text + 1 = 43"
    by (simp add: hold_text_def rfind_char_def)
  have s: "py_slice hold_text 0 43 = hold_text"
    by (simp add: py_slice_def hold_text_def)
  have l: "loads example_lib hold_text
      = Inr (JObj [(''action'', JStr ''hold''), (''reasoning'', JStr ''flat market'')])"
    by (simp add: example_lib_def example_loads_def)
  have h: "case (Inr hold_text :: exn + string) of
      Inl e \<Rightarrow> True
    | Inr content \<Rightarrow>
        (let start = find_char (CHR ''{'') content;
             stop = rfind_char (CHR ''}'') content + 1
         in start < 0 \<or> stop \<le> start
            \<or> (case loads example_lib (py_slice content start stop) of
                  Inl e \<Rightarrow> True
                | Inr (JObj kv) \<Rightarrow>
                    map_of kv ''action'' = Some (JStr ''hold'')
                    \<or> (\<exists>v. map_of kv ''platform'' = Some v
                           \<and> (\<forall>p. v \<noteq> JStr (Platform_value p)))
                    \<or> (\<exists>v. map_of kv ''trade_type'' = Some v
                           \<and> (\<forall>tt. v \<noteq> JStr (TradeType_value tt)))
                    \<or> map_of kv ''platform'' = None
                    \<or> map_of kv ''trade_type'' = None
                    \<or> map_of kv ''symbol'' = None
                    \<or> map_of kv ''amount'' = None
                | Inr other \<Rightarrow> True))"
    by (simp add: f r s l)
  have e: "generate_trade_decision example_lib (Inl (TransportError ''timed out'')) = None"
    using decision_discarded[where reply = "Inl (TransportError ''timed out'')" and L = example_lib] by simp
  have nf: "find_char (CHR ''{'') ''I would wait.'' < 0"
    by simp
  have n: "generate_trade_decision example_lib (Inr ''I would wait.'') = None"
    using decision_discarded[where reply = "Inr ''I would wait.''" and L = example_lib] nf by (simp add: Let_def)
  have uf: "find_char (CHR ''{'') ''{ not a document }'' = 0"
    by simp
  have ur: "rfind_char (CHR ''}'') ''{ not a document }'' + 1 = 18"
    by (simp add: rfind_char_def)
  have us: "py_slice ''{ not a document }'' 0 18 = ''{ not a document }''"
    by (simp add: py_slice_def)
  have ul: "loads example_lib ''{ not a document }'' = Inl (JSONDecodeError ''Expecting value'')"
    by (simp add: example_lib_def example_loads_def hold_text_def trade_text_def
        unknown_venue_text_def)
  have u: "generate_trade_decision example_lib (Inr ''{ not a document }'') = None"
    using decision_discarded[where reply = "Inr ''{ not a document }''" and L = example_lib]
    by (simp add: Let_def uf ur us ul)
  have vf: "find_char (CHR ''{'') unknown_venue_text = 0"
    by (simp add: unknown_venue_text_def)
  have vr: "rfind_char (CHR ''}'') unknown_venue_text + 1 = 84"
    by (simp add: unknown_venue_text_def rfind_char_def)
  have vs: "py_slice unknown_venue_text 0 84 = unknown_venue_text"
    by (simp add: py_slice_def unknown_venue_text_def)
  have vl: "loads example_lib unknown_venue_text
      = Inr (JObj [(''action'', JStr ''trade''), (''platform'', JStr ''binance''),
                   (''trade_type'', JStr ''buy''), (''symbol'', JStr ''BTC''),
                   (''amount'', JNum 1)])"
    by (simp add: example_lib_def example_loads_def hold_text_def trade_text_def
        unknown_venue_text_def)
  have vp: "\<forall>p. JStr ''binance'' \<noteq> JStr (Platform_value p)"
  proof
    fix p show "JStr ''binance'' \<noteq> JStr (Platform_value p)" by (cases p) simp_all
  qed
  have v: "generate_trade_decision example_lib (Inr unknown_venue_text) = None"
    using decision_discarded[where reply = "Inr unknown_venue_text" and L = example_lib] vp
    by (simp add: Let_def vf vr vs vl)
  from decision_discarded[OF h] h f r s l e nf n uf ur us ul u vf vr vs vl v
  show ?thesis by simp
qed



end
